theory Spec2Isabelle
  imports Complex_Main "HOL-Library.Sublist"
begin

section \<open>Python values\<close>

text \<open>
  A Python \<^verbatim>\<open>str\<close> is a sequence of Unicode code points and \<^verbatim>\<open>len\<close> counts code
  points, so a string is a list of code points here. Literals of the source are written
  with \<open>ascii\<close> for their ASCII runs and as code-point lists for the Hangul runs.
\<close>

type_synonym pystr = "nat list"

definition ascii :: "string \<Rightarrow> pystr" where
  "ascii s = map of_char s"

text \<open>The code points \<^verbatim>\<open>str.isspace\<close> accepts; \<^verbatim>\<open>str.strip()\<close> removes exactly these.\<close>

definition py_isspace :: "nat \<Rightarrow> bool" where
  "py_isspace c =
     ((9 \<le> c \<and> c \<le> 13) \<or> (28 \<le> c \<and> c \<le> 32) \<or> c = 133 \<or> c = 160 \<or> c = 5760 \<or>
      (8192 \<le> c \<and> c \<le> 8202) \<or> c = 8232 \<or> c = 8233 \<or> c = 8239 \<or> c = 8287 \<or>
      c = 12288)"

definition lstrip :: "pystr \<Rightarrow> pystr" where
  "lstrip s = dropWhile py_isspace s"

definition rstrip :: "pystr \<Rightarrow> pystr" where
  "rstrip s = rev (dropWhile py_isspace (rev s))"

definition strip :: "pystr \<Rightarrow> pystr" where
  "strip s = rstrip (lstrip s)"

text \<open>\<^verbatim>\<open>s.rstrip('/')\<close>\<close>

definition rstrip_char :: "nat \<Rightarrow> pystr \<Rightarrow> pystr" where
  "rstrip_char c s = rev (dropWhile (\<lambda>x. x = c) (rev s))"

text \<open>
  \<^verbatim>\<open>str.lower()\<close> is only ever compared with the ASCII literal \<^verbatim>\<open>"kure"\<close>. The code
  points whose lower case is an ASCII letter are the ASCII capitals and the Kelvin sign
  (U+212A); every other code point cannot produce one of \<^verbatim>\<open>k u r e\<close> and is left as
  it is.
\<close>

definition lower_cp :: "nat \<Rightarrow> nat" where
  "lower_cp c = (if 65 \<le> c \<and> c \<le> 90 then c + 32 else if c = 8490 then 107 else c)"

definition lower :: "pystr \<Rightarrow> pystr" where
  "lower s = map lower_cp s"

text \<open>\<^verbatim>\<open>s.replace("\n", " ")\<close>\<close>

definition replace_nl :: "pystr \<Rightarrow> pystr" where
  "replace_nl s = map (\<lambda>c. if c = 10 then 32 else c) s"

text \<open>The decimal text of a non-negative integer, as an f-string prints it.\<close>

fun str_of_nat :: "nat \<Rightarrow> pystr" where
  "str_of_nat n = (if n < 10 then [48 + n] else str_of_nat (n div 10) @ [48 + n mod 10])"

declare str_of_nat.simps [simp del]

text \<open>\<^verbatim>\<open>sep.join(lines)\<close>\<close>

fun py_join :: "pystr \<Rightarrow> pystr list \<Rightarrow> pystr" where
  "py_join sep [] = []"
| "py_join sep [x] = x"
| "py_join sep (x # y # ys) = x @ sep @ py_join sep (y # ys)"

text \<open>
  \<^verbatim>\<open>a or b\<close> on values of type \<^verbatim>\<open>str | None\<close>: the first operand when it is truthy
  (a non-empty string), the second otherwise.
\<close>

definition py_or :: "pystr option \<Rightarrow> pystr option \<Rightarrow> pystr option" where
  "py_or a b = (case a of None \<Rightarrow> b | Some s \<Rightarrow> if s = [] then b else Some s)"

text \<open>\<^verbatim>\<open>(a or "")\<close>\<close>

definition or_empty :: "pystr option \<Rightarrow> pystr" where
  "or_empty a = (case a of None \<Rightarrow> [] | Some s \<Rightarrow> s)"

section \<open>Errors, the outside world, and effects\<close>

text \<open>
  The texts of the \<^verbatim>\<open>RuntimeError\<close>s the code raises are Korean sentences naming the
  setting that is empty; a constructor stands for each text.
\<close>

datatype message =
    QDRANT_URL_empty
  | QDRANT_COLLECTION_empty
  | OPENAI_API_KEY_LAWBOT_empty
  | OPENAI_API_KEY_unset
  | OpenAI_embeddings_failed

datatype error =
    RuntimeError message
  | HTTPError nat
  | IndexError
  | KeyError string
  | ProviderError nat
  | GraphRecursionError
  | ValidationError string

text \<open>The module constants of \<^verbatim>\<open>app/config.py\<close> the pipeline reads.\<close>

record config =
  QDRANT_URL :: pystr
  QDRANT_API_KEY :: pystr
  QDRANT_COLLECTION_NAME :: pystr
  QDRANT_COLLECTION_OAI :: pystr
  QDRANT_TIMEOUT_SEC :: real
  EMBED_PROVIDER :: pystr
  OPENAI_API_KEY_LAWBOT :: pystr
  OPENAI_LAWBOT_MODEL :: pystr
  OPENAI_BASE_URL :: pystr
  OPENAI_TIMEOUT_SEC :: real
  OPENAI_TEMPERATURE :: real
  OPENAI_MAX_TOKENS :: int

text \<open>The body of the search request, before \<^verbatim>\<open>json.dumps\<close>.\<close>

record search_body =
  sb_vector :: "real list"
  sb_limit :: int
  sb_with_payload :: bool
  sb_with_vector :: bool

text \<open>
  One hit of the search response. An id of the vector store is an unsigned integer or a
  string; the payload maps a key to its text (\<open>None\<close> for a missing key or a null).
\<close>

datatype hit_id = IdInt nat | IdStr pystr

record raw_hit =
  hit_id :: "hit_id option"
  hit_score :: "real option"
  hit_payload :: "(string \<Rightarrow> pystr option) option"

record http_response =
  status_code :: nat
  resp_result :: "raw_hit list"

record oai_client =
  cl_api_key :: pystr
  cl_base_url :: "pystr option"

record chat_request =
  cr_model :: pystr
  cr_system :: pystr
  cr_user :: pystr
  cr_temperature :: real
  cr_max_tokens :: int
  cr_timeout :: real

text \<open>A chunk of the streamed completion: \<^verbatim>\<open>chunk.choices[0].delta.content\<close>.\<close>

datatype delta = Delta (content: "pystr option")
datatype choice = Choice (delta: "delta option")
datatype chunk = Chunk (choices: "choice list")

text \<open>
  Every call that leaves the process is recorded as an event; the list of events so far
  is the state the effectful functions thread.
\<close>

datatype event =
    EmbeddingsCreate pystr "pystr list"
  | KureEncode pystr "pystr list"
  | Sleep nat
  | QdrantPost pystr "(pystr \<times> pystr) list" search_body
  | ChatCreate oai_client chat_request
  | ChatCreateStream oai_client chat_request

text \<open>
  The collaborators, as functions of the events so far and of the request: the process
  environment, the clock, the embedding backends, the vector store's HTTP endpoint and
  the chat backend. A backend answers or raises.
\<close>

record world =
  cfg :: config
  environ :: "string \<Rightarrow> pystr option"
  perf_counter :: "event list \<Rightarrow> real"
  embeddings_create :: "event list \<Rightarrow> oai_client \<Rightarrow> pystr \<Rightarrow> pystr list \<Rightarrow> error + real list list"
  kure_encode :: "event list \<Rightarrow> pystr \<Rightarrow> pystr list \<Rightarrow> error + real list list"
  qdrant_post ::
    "event list \<Rightarrow> pystr \<Rightarrow> (pystr \<times> pystr) list \<Rightarrow> search_body \<Rightarrow> real \<Rightarrow> error + http_response"
  chat_create :: "event list \<Rightarrow> oai_client \<Rightarrow> chat_request \<Rightarrow> error + pystr option list"
  chat_create_stream :: "event list \<Rightarrow> oai_client \<Rightarrow> chat_request \<Rightarrow> error + chunk list"

type_synonym 'a io = "event list \<Rightarrow> (error + 'a) \<times> event list"

definition io_return :: "'a \<Rightarrow> 'a io" where
  "io_return x = (\<lambda>tr. (Inr x, tr))"

definition io_raise :: "error \<Rightarrow> 'a io" where
  "io_raise e = (\<lambda>tr. (Inl e, tr))"

definition io_bind :: "'a io \<Rightarrow> ('a \<Rightarrow> 'b io) \<Rightarrow> 'b io" where
  "io_bind m f = (\<lambda>tr. case m tr of (Inl e, tr') \<Rightarrow> (Inl e, tr') | (Inr x, tr') \<Rightarrow> f x tr')"

text \<open>\<^verbatim>\<open>try: m  except Exception as e: h(e)\<close>\<close>

definition io_catch :: "'a io \<Rightarrow> (error \<Rightarrow> 'a io) \<Rightarrow> 'a io" where
  "io_catch m h = (\<lambda>tr. case m tr of (Inl e, tr') \<Rightarrow> h e tr' | (Inr x, tr') \<Rightarrow> (Inr x, tr'))"

text \<open>A call to a collaborator: the event is recorded, the collaborator answers.\<close>

definition io_call :: "event \<Rightarrow> (event list \<Rightarrow> error + 'a) \<Rightarrow> 'a io" where
  "io_call ev backend = (\<lambda>tr. (backend tr, tr @ [ev]))"

definition io_read :: "(event list \<Rightarrow> 'a) \<Rightarrow> 'a io" where
  "io_read f = (\<lambda>tr. (Inr (f tr), tr))"

text \<open>\<^verbatim>\<open>int(x)\<close> of a float truncates towards zero.\<close>

definition py_int :: "real \<Rightarrow> int" where
  "py_int x = (if 0 \<le> x then \<lfloor>x\<rfloor> else \<lceil>x\<rceil>)"

text \<open>\<^verbatim>\<open>xs[0]\<close> raises IndexError on the empty list.\<close>

definition index0 :: "'a list \<Rightarrow> 'a io" where
  "index0 xs = (case xs of [] \<Rightarrow> io_raise IndexError | x # _ \<Rightarrow> io_return x)"

definition getenv_default :: "world \<Rightarrow> string \<Rightarrow> pystr \<Rightarrow> pystr" where
  "getenv_default w name dflt = (case environ w name of None \<Rightarrow> dflt | Some v \<Rightarrow> v)"

section \<open>app/ingestion/embeddings.py\<close>

definition embed_provider :: "world \<Rightarrow> pystr" where
  "embed_provider w = lower (strip (getenv_default w ''EMBED_PROVIDER'' (ascii ''openai'')))"

definition get_oai_client :: "world \<Rightarrow> oai_client io" where
  "get_oai_client w =
     (case py_or (environ w ''OPENAI_API_KEY_LAWBOT'') (environ w ''OPENAI_API_KEY'') of
        None \<Rightarrow> io_raise (RuntimeError OPENAI_API_KEY_unset)
      | Some api_key \<Rightarrow>
          if api_key = [] then io_raise (RuntimeError OPENAI_API_KEY_unset)
          else io_return \<lparr>cl_api_key = api_key, cl_base_url = None\<rparr>)"

definition oai_embed_model :: "world \<Rightarrow> pystr" where
  "oai_embed_model w =
     strip (getenv_default w ''OPENAI_EMBED_MODEL'' (ascii ''text-embedding-3-small''))"

text \<open>The body of the loop over \<^verbatim>\<open>texts\<close> that fills \<^verbatim>\<open>cleaned\<close>.\<close>

definition clean_text :: "pystr \<Rightarrow> pystr" where
  "clean_text t = (let s = strip (replace_nl t) in if s = [] then [32] else s)"

text \<open>
  \<^verbatim>\<open>for attempt in range(1, retry + 1)\<close>: a successful request leaves the loop with its
  embeddings; a failed one is remembered, followed by a sleep unless it was the last
  attempt. A loop that ends with a remembered failure raises.
\<close>

fun embed_attempts ::
  "world \<Rightarrow> oai_client \<Rightarrow> pystr \<Rightarrow> pystr list \<Rightarrow> nat \<Rightarrow> nat list \<Rightarrow> error option \<Rightarrow> real list list io"
where
  "embed_attempts w client model chunk retry [] last_err =
     (case last_err of
        None \<Rightarrow> io_return []
      | Some e \<Rightarrow> io_raise (RuntimeError OpenAI_embeddings_failed))"
| "embed_attempts w client model chunk retry (attempt # rest) last_err =
     io_catch
       (io_call (EmbeddingsCreate model chunk) (\<lambda>tr. embeddings_create w tr client model chunk))
       (\<lambda>e. io_bind
          (if attempt < retry then io_call (Sleep attempt) (\<lambda>tr. Inr ()) else io_return ())
          (\<lambda>_. embed_attempts w client model chunk retry rest (Some e)))"

text \<open>\<^verbatim>\<open>cleaned[start:start + n]\<close> for \<^verbatim>\<open>start\<close> in \<^verbatim>\<open>range(0, len(cleaned), n)\<close>.\<close>

fun batches :: "nat \<Rightarrow> 'a list \<Rightarrow> 'a list list" where
  "batches n xs = (if n = 0 \<or> xs = [] then [] else take n xs # batches n (drop n xs))"

declare batches.simps [simp del]

fun embed_batches ::
  "world \<Rightarrow> oai_client \<Rightarrow> pystr \<Rightarrow> nat \<Rightarrow> pystr list list \<Rightarrow> real list list \<Rightarrow> real list list io"
where
  "embed_batches w client model retry [] out = io_return out"
| "embed_batches w client model retry (chunk # rest) out =
     io_bind (embed_attempts w client model chunk retry [1..<retry + 1] None)
       (\<lambda>data. embed_batches w client model retry rest (out @ data))"

text \<open>\<^verbatim>\<open>embed_texts_openai(texts)\<close> with its defaults: batches of 64, 3 attempts.\<close>

definition embed_texts_openai :: "world \<Rightarrow> pystr list \<Rightarrow> real list list io" where
  "embed_texts_openai w texts =
     (if texts = [] then io_return []
      else io_bind (get_oai_client w) (\<lambda>client.
        let model = oai_embed_model w;
            cleaned = map clean_text texts
        in embed_batches w client model 3 (batches 64 cleaned) []))"

text \<open>
  \<^verbatim>\<open>embed_texts_kure\<close>: the local model (loaded on first use) encodes the texts.
\<close>

definition embed_texts_kure :: "world \<Rightarrow> pystr list \<Rightarrow> real list list io" where
  "embed_texts_kure w texts =
     (if texts = [] then io_return []
      else
        let model_name = getenv_default w ''KURE_MODEL_NAME'' (ascii ''nlpai-lab/KURE-v1'')
        in io_call (KureEncode model_name texts) (\<lambda>tr. kure_encode w tr model_name texts))"

definition embed_texts :: "world \<Rightarrow> pystr list \<Rightarrow> real list list io" where
  "embed_texts w texts =
     (if embed_provider w = ascii ''kure'' then embed_texts_kure w texts
      else embed_texts_openai w texts)"

section \<open>app/rag/law_rag.py\<close>

text \<open>
  A neighbour as \<^verbatim>\<open>qdrant_search_laws\<close> builds it: a dictionary with exactly these
  keys. The texts are \<^verbatim>\<open>str | None\<close>, as the response model \<^verbatim>\<open>LawSource\<close> types
  them and as the ingestion writes them.
\<close>

record point =
  pt_id :: pystr
  pt_score :: real
  pt_dataset :: "pystr option"
  pt_category :: "pystr option"
  pt_question :: "pystr option"
  pt_answer :: "pystr option"
  pt_answerSnippet :: "pystr option"
  pt_docNo :: "int option"
  pt_collection :: pystr

definition active_collection_name :: "config \<Rightarrow> pystr" where
  "active_collection_name c =
     (if lower (strip (EMBED_PROVIDER c)) = ascii ''kure'' then QDRANT_COLLECTION_NAME c
      else if QDRANT_COLLECTION_OAI c \<noteq> [] then QDRANT_COLLECTION_OAI c
      else QDRANT_COLLECTION_NAME c)"

definition qdrant_headers :: "config \<Rightarrow> (pystr \<times> pystr) list" where
  "qdrant_headers c =
     (ascii ''Content-Type'', ascii ''application/json'') #
     (if QDRANT_API_KEY c \<noteq> [] then [(ascii ''api-key'', QDRANT_API_KEY c)] else [])"

text \<open>The body of the loop over the hits of the response.\<close>

definition point_of_hit :: "pystr \<Rightarrow> raw_hit \<Rightarrow> point" where
  "point_of_hit col r =
     (let payload_obj = (case hit_payload r of None \<Rightarrow> (\<lambda>k. None) | Some p \<Rightarrow> p);
          dataset = py_or (py_or (payload_obj ''dataset_name'') (payload_obj ''dataset''))
                      (payload_obj ''source_dataset'');
          category = py_or (payload_obj ''law_category'') (payload_obj ''category'');
          question = payload_obj ''question'';
          answer = payload_obj ''answer''
      in \<lparr>pt_id = (case hit_id r of None \<Rightarrow> [] | Some (IdInt n) \<Rightarrow> str_of_nat n
                    | Some (IdStr s) \<Rightarrow> s),
          pt_score = (case hit_score r of None \<Rightarrow> 0 | Some x \<Rightarrow> x),
          pt_dataset = dataset,
          pt_category = category,
          pt_question = question,
          pt_answer = answer,
          pt_answerSnippet = None,
          pt_docNo = None,
          pt_collection = col\<rparr>)"

text \<open>
  \<^verbatim>\<open>qdrant_search_laws(query_vec, top_k, collection_name)\<close>: the two configuration
  checks, then one POST; \<^verbatim>\<open>raise_for_status\<close> raises on a 4xx or 5xx status.
\<close>

definition qdrant_search_laws ::
  "world \<Rightarrow> real list \<Rightarrow> int \<Rightarrow> pystr option \<Rightarrow> point list io"
where
  "qdrant_search_laws w query_vec top_k collection_name =
     (if QDRANT_URL (cfg w) = [] then io_raise (RuntimeError QDRANT_URL_empty)
      else
        let col = strip (or_empty (py_or collection_name (Some (active_collection_name (cfg w)))))
        in if col = [] then io_raise (RuntimeError QDRANT_COLLECTION_empty)
           else
             let url = rstrip_char 47 (QDRANT_URL (cfg w)) @ ascii ''/collections/'' @ col @
                         ascii ''/points/search'';
                 payload = \<lparr>sb_vector = query_vec, sb_limit = top_k,
                              sb_with_payload = True, sb_with_vector = False\<rparr>
             in io_bind
                  (io_call (QdrantPost url (qdrant_headers (cfg w)) payload)
                     (\<lambda>tr. qdrant_post w tr url (qdrant_headers (cfg w)) payload
                              (QDRANT_TIMEOUT_SEC (cfg w))))
                  (\<lambda>resp.
                     if 400 \<le> status_code resp \<and> status_code resp < 600
                     then io_raise (HTTPError (status_code resp))
                     else io_return (map (point_of_hit col) (resp_result resp))))"

text \<open>
  \<^verbatim>\<open>build_context_from_points\<close>. The header line is the text
  \<^verbatim>\<open>[\<close>, U+BB38, U+C11C, space, the index, \<^verbatim>\<open>]\<close>; the truncation marker is U+2026.
\<close>

definition doc_header :: "nat \<Rightarrow> pystr" where
  "doc_header i = ascii ''['' @ [47928, 49436] @ ascii '' '' @ str_of_nat i @ ascii '']''"

definition truncation_marker :: pystr where
  "truncation_marker = [8230]"

text \<open>Lines 127 and 128: the answer, cut when it is longer than the cap.\<close>

definition truncate_answer :: "int \<Rightarrow> pystr \<Rightarrow> pystr" where
  "truncate_answer max_chars_per_doc a =
     (if 0 < max_chars_per_doc \<and> max_chars_per_doc < int (length a)
      then take (nat max_chars_per_doc) a @ truncation_marker else a)"

text \<open>
  The lines one iteration of the loop appends, for the neighbour of index \<open>i\<close>: the
  header, the question and the answer when they are not empty, and a closing empty line.
\<close>

definition section_lines :: "int \<Rightarrow> nat \<Rightarrow> point \<Rightarrow> pystr list" where
  "section_lines max_chars_per_doc i p =
     (let q = strip (or_empty (pt_question p));
          a = truncate_answer max_chars_per_doc (strip (or_empty (pt_answer p)))
      in [doc_header i] @
         (if q \<noteq> [] then [ascii ''Q: '' @ q] else []) @
         (if a \<noteq> [] then [ascii ''A: '' @ a] else []))"

definition doc_lines :: "int \<Rightarrow> nat \<Rightarrow> point \<Rightarrow> pystr list" where
  "doc_lines max_chars_per_doc i p = section_lines max_chars_per_doc i p @ [[]]"

text \<open>The loop \<^verbatim>\<open>for i, p in enumerate(points, start=i)\<close>.\<close>

fun context_lines :: "int \<Rightarrow> nat \<Rightarrow> point list \<Rightarrow> pystr list" where
  "context_lines max_chars_per_doc i [] = []"
| "context_lines max_chars_per_doc i (p # ps) =
     doc_lines max_chars_per_doc i p @ context_lines max_chars_per_doc (Suc i) ps"

definition build_context_from_points :: "point list \<Rightarrow> int \<Rightarrow> pystr" where
  "build_context_from_points points max_chars_per_doc =
     strip (py_join [10] (context_lines max_chars_per_doc 1 points))"

definition openai_client :: "config \<Rightarrow> oai_client io" where
  "openai_client c =
     (if OPENAI_API_KEY_LAWBOT c = [] then io_raise (RuntimeError OPENAI_API_KEY_LAWBOT_empty)
      else if OPENAI_BASE_URL c \<noteq> []
      then io_return \<lparr>cl_api_key = OPENAI_API_KEY_LAWBOT c, cl_base_url = Some (OPENAI_BASE_URL c)\<rparr>
      else io_return \<lparr>cl_api_key = OPENAI_API_KEY_LAWBOT c, cl_base_url = None\<rparr>)"

definition chat_request_of :: "config \<Rightarrow> pystr \<Rightarrow> pystr \<Rightarrow> chat_request" where
  "chat_request_of c system_prompt user_prompt =
     \<lparr>cr_model = OPENAI_LAWBOT_MODEL c, cr_system = system_prompt, cr_user = user_prompt,
      cr_temperature = OPENAI_TEMPERATURE c, cr_max_tokens = OPENAI_MAX_TOKENS c,
      cr_timeout = OPENAI_TIMEOUT_SEC c\<rparr>"

definition call_openai_chat :: "world \<Rightarrow> pystr \<Rightarrow> pystr \<Rightarrow> pystr io" where
  "call_openai_chat w system_prompt user_prompt =
     io_bind (openai_client (cfg w)) (\<lambda>client.
     let req = chat_request_of (cfg w) system_prompt user_prompt in
     io_bind (io_call (ChatCreate client req) (\<lambda>tr. chat_create w tr client req)) (\<lambda>resp_choices.
     io_bind (index0 resp_choices) (\<lambda>message_content.
     io_return (strip (or_empty message_content)))))"

text \<open>
  \<^verbatim>\<open>chunk.choices[0].delta.content if chunk.choices and chunk.choices[0].delta else None\<close>
\<close>

definition chunk_delta :: "chunk \<Rightarrow> pystr option" where
  "chunk_delta c =
     (case choices c of
        [] \<Rightarrow> None
      | ch # _ \<Rightarrow> (case delta ch of None \<Rightarrow> None | Some d \<Rightarrow> content d))"

text \<open>
  The loop of the generator over the chunks of the stream: a chunk whose delta is
  missing or empty is skipped (\<^verbatim>\<open>continue\<close>), any other delta is yielded.
\<close>

fun stream_fragments :: "chunk list \<Rightarrow> pystr list" where
  "stream_fragments [] = []"
| "stream_fragments (c # cs) =
     (case chunk_delta c of
        None \<Rightarrow> stream_fragments cs
      | Some d \<Rightarrow> if d = [] then stream_fragments cs else d # stream_fragments cs)"

text \<open>
  \<^verbatim>\<open>call_openai_chat_stream\<close> is a generator: calling it runs nothing. The value it
  returns is the suspended computation below, which the consumer of the stream runs; its
  result is the sequence of the fragments it yields.
\<close>

definition call_openai_chat_stream :: "world \<Rightarrow> pystr \<Rightarrow> pystr \<Rightarrow> pystr list io" where
  "call_openai_chat_stream w system_prompt user_prompt =
     io_bind (openai_client (cfg w)) (\<lambda>client.
     let req = chat_request_of (cfg w) system_prompt user_prompt in
     io_bind (io_call (ChatCreateStream client req) (\<lambda>tr. chat_create_stream w tr client req))
       (\<lambda>stream. io_return (stream_fragments stream)))"

definition build_prompts :: "pystr \<Rightarrow> pystr \<Rightarrow> pystr \<times> pystr" where
  "build_prompts question ctx =
     (let system_prompt =
            ([45817, 49888, 51008] @ ascii '' '' @ [54620, 44397, 50612] @ ascii '' '' @ [48277, 47456] @ ascii '' '' @ [49345, 45812] @ ascii '' '' @ [48372, 51312] @ ascii '' AI'' @ [51077, 45768, 45796] @ ascii ''.'' @ [10]) @
            ([48152, 46300, 49884] @ ascii '' '' @ [51228, 44277, 46108] @ ascii '' ['' @ [47928, 49436] @ ascii '' n] '' @ [44540, 44144, 47484] @ ascii '' '' @ [50864, 49440, 54616, 50668] @ ascii '' '' @ [45813, 54616, 44256] @ ascii '', '' @ [44540, 44144, 44032] @ ascii '' '' @ [48512, 51313, 54616, 47732] @ ascii '' '' @ [39, 52628, 44032, 49345, 45812] @ ascii '' '' @ [54596, 50836, 39, 47484] @ ascii '' '' @ [47749, 49884, 54616, 49464, 50836] @ ascii ''.'' @ [10]) @
            ([52636, 47141] @ ascii '' '' @ [54805, 49885] @ ascii '':'' @ [10]) @
            (ascii ''1) '' @ [50836, 50557, 10]) @
            (ascii ''2) '' @ [45800, 44228, 10]) @
            (ascii ''3) '' @ [51452, 51032, 49324, 54637] @ ascii ''('' @ [47532, 49828, 53356] @ ascii '')'' @ [10]) @
            (ascii ''4) '' @ [52628, 44032, 49345, 45812, 10]);
          user_prompt =
            ([51656, 47928] @ ascii '': '') @ question @
            ([10, 10, 50500, 47000, 45716] @ ascii '' '' @ [52280, 44256] @ ascii '' '' @ [47928, 49436] @ ascii ''('' @ [44540, 44144] @ ascii '')'' @ [51077, 45768, 45796] @ ascii '':'' @ [10]) @ ctx @
            ([10, 10, 50836, 44396] @ ascii '' '' @ [54805, 49885, 45824, 47196] @ ascii '' '' @ [45813, 54644, 51452, 49464, 50836] @ ascii ''. '' @ [44033] @ ascii '' '' @ [47928, 51109, 51008] @ ascii '' '' @ [44032, 45733, 54620] @ ascii '' '' @ [54620] @ ascii '' ['' @ [47928, 49436] @ ascii '' n] '' @ [44540, 44144, 47484] @ ascii '' '' @ [48537, 51060, 49464, 50836] @ ascii ''.'')
      in (system_prompt, user_prompt))"

text \<open>
  The two entry operations of the direct pipeline. Their clock readings and the report
  they print are local and reach neither the result nor a collaborator; they are left
  out. \<^verbatim>\<open>build_context_from_points\<close> is called with its default cap, 900.
\<close>

definition search_law_with_answer :: "world \<Rightarrow> pystr \<Rightarrow> int \<Rightarrow> (pystr \<times> point list) io" where
  "search_law_with_answer w query top_k =
     (let active_col = active_collection_name (cfg w) in
      io_bind (embed_texts w [query]) (\<lambda>vecs.
      io_bind (index0 vecs) (\<lambda>query_vec.
      io_bind (qdrant_search_laws w query_vec top_k (Some active_col)) (\<lambda>points.
      let ctx = build_context_from_points points 900;
          prompts = build_prompts query ctx
      in io_bind (call_openai_chat w (fst prompts) (snd prompts)) (\<lambda>answer.
         io_return (answer, points))))))"

definition stream_law_answer ::
  "world \<Rightarrow> pystr \<Rightarrow> int \<Rightarrow> (pystr list io \<times> point list) io"
where
  "stream_law_answer w query top_k =
     (let active_col = active_collection_name (cfg w) in
      io_bind (embed_texts w [query]) (\<lambda>vecs.
      io_bind (index0 vecs) (\<lambda>query_vec.
      io_bind (qdrant_search_laws w query_vec top_k (Some active_col)) (\<lambda>points.
      let ctx = build_context_from_points points 900;
          prompts = build_prompts query ctx;
          gen = call_openai_chat_stream w (fst prompts) (snd prompts)
      in io_return (gen, points)))))"

section \<open>app/rag/law_rag_graph.py\<close>

text \<open>
  \<^verbatim>\<open>GraphState\<close> is a \<^verbatim>\<open>TypedDict\<close> with \<^verbatim>\<open>total=False\<close>: every key may be absent.
  The field \<open>st_k\<close> is the key \<^verbatim>\<open>k\<close>; \<open>None\<close> is an absent key.
\<close>

record GraphState =
  st_question :: "pystr option"
  st_top_k :: "int option"
  st_embed_ms :: "int option"
  st_qdrant_ms :: "int option"
  st_query_vec :: "real list option"
  st_points :: "point list option"
  st_context :: "pystr option"
  st_system_prompt :: "pystr option"
  st_user_prompt :: "pystr option"
  st_answer :: "pystr option"

text \<open>\<^verbatim>\<open>state[key]\<close> raises KeyError on an absent key; \<^verbatim>\<open>state.get(key, d)\<close> does not.\<close>

definition subscript :: "string \<Rightarrow> 'a option \<Rightarrow> 'a io" where
  "subscript key v = (case v of None \<Rightarrow> io_raise (KeyError key) | Some x \<Rightarrow> io_return x)"

definition get_default :: "'a option \<Rightarrow> 'a \<Rightarrow> 'a" where
  "get_default v d = (case v of None \<Rightarrow> d | Some x \<Rightarrow> x)"

definition node_embed :: "world \<Rightarrow> GraphState \<Rightarrow> GraphState io" where
  "node_embed w state =
     io_bind (io_read (perf_counter w)) (\<lambda>t0.
     io_bind (subscript ''question'' (st_question state)) (\<lambda>q.
     io_bind (embed_texts w [q]) (\<lambda>vecs.
     io_bind (index0 vecs) (\<lambda>vec.
     io_bind (io_read (perf_counter w)) (\<lambda>t1.
     let dt = py_int ((t1 - t0) * 1000) in
     io_return (state\<lparr>st_query_vec := Some vec, st_embed_ms := Some dt\<rparr>))))))"

definition node_retrieve :: "world \<Rightarrow> GraphState \<Rightarrow> GraphState io" where
  "node_retrieve w state =
     io_bind (io_read (perf_counter w)) (\<lambda>t0.
     io_bind (subscript ''query_vec'' (st_query_vec state)) (\<lambda>vec.
     let top_k = get_default (st_top_k state) 5 in
     io_bind (qdrant_search_laws w vec top_k None) (\<lambda>pts.
     io_bind (io_read (perf_counter w)) (\<lambda>t1.
     let dt = py_int ((t1 - t0) * 1000) in
     io_return (state\<lparr>st_points := Some pts, st_qdrant_ms := Some dt,
                        st_context := Some (build_context_from_points pts 900)\<rparr>)))))"

definition node_prompt :: "world \<Rightarrow> GraphState \<Rightarrow> GraphState io" where
  "node_prompt w state =
     io_bind (subscript ''question'' (st_question state)) (\<lambda>q.
     let ctx = get_default (st_context state) [];
         system_prompt =
            ([45817, 49888, 51008] @ ascii '' '' @ [54620, 44397, 50612] @ ascii '' '' @ [48277, 47456] @ ascii '' '' @ [49345, 45812] @ ascii '' '' @ [48372, 51312] @ ascii '' AI'' @ [51077, 45768, 45796] @ ascii ''.'' @ [10]) @
            ([48152, 46300, 49884] @ ascii '' '' @ [51228, 44277, 46108] @ ascii '' ['' @ [47928, 49436] @ ascii '' n] '' @ [44540, 44144, 47484] @ ascii '' '' @ [50864, 49440, 54616, 50668] @ ascii '' '' @ [45813, 54616, 44256] @ ascii '', '' @ [44540, 44144, 44032] @ ascii '' '' @ [48512, 51313, 54616, 47732] @ ascii '' '' @ [39, 52628, 44032, 49345, 45812] @ ascii '' '' @ [54596, 50836, 39, 47484] @ ascii '' '' @ [47749, 49884, 54616, 49464, 50836] @ ascii ''.'' @ [10]) @
            ([52636, 47141] @ ascii '' '' @ [54805, 49885] @ ascii '':'' @ [10]) @
            (ascii ''1) '' @ [50836, 50557, 10]) @
            (ascii ''2) '' @ [45800, 44228, 10]) @
            (ascii ''3) '' @ [51452, 51032, 49324, 54637] @ ascii ''('' @ [47532, 49828, 53356] @ ascii '')'' @ [10]) @
            (ascii ''4) '' @ [52628, 44032, 49345, 45812, 10]);
         user_prompt =
            ([51656, 47928] @ ascii '': '') @ q @
            ([10, 10, 50500, 47000, 45716] @ ascii '' '' @ [52280, 44256] @ ascii '' '' @ [47928, 49436] @ ascii ''('' @ [44540, 44144] @ ascii '')'' @ [51077, 45768, 45796] @ ascii '':'' @ [10]) @ ctx @
            ([10, 10, 50836, 44396] @ ascii '' '' @ [54805, 49885, 45824, 47196] @ ascii '' '' @ [45813, 54644, 51452, 49464, 50836] @ ascii ''. '' @ [44033] @ ascii '' '' @ [47928, 51109, 51008] @ ascii '' '' @ [44032, 45733, 54620] @ ascii '' '' @ [54620] @ ascii '' ['' @ [47928, 49436] @ ascii '' n] '' @ [44540, 44144, 47484] @ ascii '' '' @ [48537, 51060, 49464, 50836] @ ascii ''.'')
     in io_return (state\<lparr>st_system_prompt := Some system_prompt,
                           st_user_prompt := Some user_prompt\<rparr>))"

definition node_generate :: "world \<Rightarrow> GraphState \<Rightarrow> GraphState io" where
  "node_generate w state =
     io_bind (subscript ''system_prompt'' (st_system_prompt state)) (\<lambda>system_prompt.
     io_bind (subscript ''user_prompt'' (st_user_prompt state)) (\<lambda>user_prompt.
     io_bind (call_openai_chat w system_prompt user_prompt) (\<lambda>answer.
     io_return (state\<lparr>st_answer := Some answer\<rparr>))))"

text \<open>
  The state graph of the library: named nodes, an entry point, and for each node the
  node that follows it. Invoking the compiled graph runs the entry node and follows the
  edges until \<open>END\<close>; the library stops a run after 25 steps (its recursion limit).
\<close>

record graph =
  g_nodes :: "(string \<times> (GraphState \<Rightarrow> GraphState io)) list"
  g_entry :: string
  g_edges :: "(string \<times> string) list"

definition END :: string where
  "END = ''__end__''"

definition StateGraph :: graph where
  "StateGraph = \<lparr>g_nodes = [], g_entry = [], g_edges = []\<rparr>"

definition add_node :: "string \<Rightarrow> (GraphState \<Rightarrow> GraphState io) \<Rightarrow> graph \<Rightarrow> graph" where
  "add_node name node g = g\<lparr>g_nodes := g_nodes g @ [(name, node)]\<rparr>"

definition set_entry_point :: "string \<Rightarrow> graph \<Rightarrow> graph" where
  "set_entry_point name g = g\<lparr>g_entry := name\<rparr>"

definition add_edge :: "string \<Rightarrow> string \<Rightarrow> graph \<Rightarrow> graph" where
  "add_edge a b g = g\<lparr>g_edges := g_edges g @ [(a, b)]\<rparr>"

fun run_graph :: "graph \<Rightarrow> nat \<Rightarrow> string \<Rightarrow> GraphState \<Rightarrow> GraphState io" where
  "run_graph g fuel name state =
     (if name = END then io_return state
      else case fuel of
        0 \<Rightarrow> io_raise GraphRecursionError
      | Suc fuel' \<Rightarrow>
          (case map_of (g_nodes g) name of
             None \<Rightarrow> io_raise (KeyError name)
           | Some node \<Rightarrow>
               io_bind (node state) (\<lambda>state'.
                 case map_of (g_edges g) name of
                   None \<Rightarrow> io_return state'
                 | Some next_name \<Rightarrow> run_graph g fuel' next_name state')))"

declare run_graph.simps [simp del]

definition invoke :: "graph \<Rightarrow> GraphState \<Rightarrow> GraphState io" where
  "invoke g state = run_graph g 25 (g_entry g) state"

definition build_graph_full :: "world \<Rightarrow> graph" where
  "build_graph_full w =
     (let g = StateGraph;
          g = add_node ''embed'' (node_embed w) g;
          g = add_node ''retrieve'' (node_retrieve w) g;
          g = add_node ''prompt'' (node_prompt w) g;
          g = add_node ''generate'' (node_generate w) g;
          g = set_entry_point ''embed'' g;
          g = add_edge ''embed'' ''retrieve'' g;
          g = add_edge ''retrieve'' ''prompt'' g;
          g = add_edge ''prompt'' ''generate'' g;
          g = add_edge ''generate'' END g
      in g)"

definition build_graph_prep :: "world \<Rightarrow> graph" where
  "build_graph_prep w =
     (let g = StateGraph;
          g = add_node ''embed'' (node_embed w) g;
          g = add_node ''retrieve'' (node_retrieve w) g;
          g = add_node ''prompt'' (node_prompt w) g;
          g = set_entry_point ''embed'' g;
          g = add_edge ''embed'' ''retrieve'' g;
          g = add_edge ''retrieve'' ''prompt'' g;
          g = add_edge ''prompt'' END g
      in g)"

definition LAW_GRAPH_FULL :: "world \<Rightarrow> graph" where
  "LAW_GRAPH_FULL w = build_graph_full w"

definition LAW_GRAPH_PREP :: "world \<Rightarrow> graph" where
  "LAW_GRAPH_PREP w = build_graph_prep w"

text \<open>\<^verbatim>\<open>state: GraphState = {"question": question, "top_k": int(top_k)}\<close>\<close>

definition initial_state :: "pystr \<Rightarrow> int \<Rightarrow> GraphState" where
  "initial_state question top_k =
     \<lparr>st_question = Some question, st_top_k = Some top_k, st_embed_ms = None,
      st_qdrant_ms = None, st_query_vec = None, st_points = None, st_context = None,
      st_system_prompt = None, st_user_prompt = None, st_answer = None\<rparr>"

definition answer_law_question_graph :: "world \<Rightarrow> pystr \<Rightarrow> int \<Rightarrow> (pystr \<times> point list) io" where
  "answer_law_question_graph w question top_k =
     (let state = initial_state question top_k in
      io_bind (invoke (LAW_GRAPH_FULL w) state) (\<lambda>final.
      let points = get_default (st_points final) [];
          answer = get_default (st_answer final) []
      in io_return (answer, points)))"

definition stream_law_answer_graph ::
  "world \<Rightarrow> pystr \<Rightarrow> int \<Rightarrow> (pystr list io \<times> point list) io"
where
  "stream_law_answer_graph w question top_k =
     (let state = initial_state question top_k in
      io_bind (invoke (LAW_GRAPH_PREP w) state) (\<lambda>final.
      let points = get_default (st_points final) [];
          system_prompt = get_default (st_system_prompt final) [];
          user_prompt = get_default (st_user_prompt final) [];
          gen = call_openai_chat_stream w system_prompt user_prompt
      in io_return (gen, points)))"

section \<open>app/api/routes_law_chat.py\<close>

text \<open>
  The body of a request as it arrives, and the request model
  \<^verbatim>\<open>LawChatRequest\<close> with its two field constraints: \<^verbatim>\<open>question\<close> is required with
  \<^verbatim>\<open>min_length=1\<close>; \<^verbatim>\<open>top_k\<close> defaults to 5 with \<^verbatim>\<open>ge=1\<close> and \<^verbatim>\<open>le=20\<close>. The web
  framework builds the model from the body before it calls the handler, and answers
  with a validation error, without calling the handler, when a constraint fails.
\<close>

record request_body =
  body_question :: "pystr option"
  body_top_k :: "int option"

record LawChatRequest =
  req_question :: pystr
  req_top_k :: int

definition LawChatRequest_validate :: "request_body \<Rightarrow> error + LawChatRequest" where
  "LawChatRequest_validate body =
     (case body_question body of
        None \<Rightarrow> Inl (ValidationError ''question'')
      | Some q \<Rightarrow>
          if length q < 1 then Inl (ValidationError ''question'')
          else
            let k = get_default (body_top_k body) 5
            in if k < 1 \<or> 20 < k then Inl (ValidationError ''top_k'')
               else Inr \<lparr>req_question = q, req_top_k = k\<rparr>)"

record LawSource =
  src_id :: pystr
  src_score :: real
  src_dataset :: "pystr option"
  src_category :: "pystr option"
  src_question :: "pystr option"
  src_answerSnippet :: "pystr option"
  src_docNo :: "int option"

record LawChatResponse =
  resp_ok :: bool
  resp_answer :: pystr
  resp_sources :: "LawSource list"

definition source_of_point :: "point \<Rightarrow> LawSource" where
  "source_of_point p =
     \<lparr>src_id = pt_id p, src_score = pt_score p, src_dataset = pt_dataset p,
      src_category = pt_category p, src_question = pt_question p,
      src_answerSnippet = pt_answerSnippet p, src_docNo = pt_docNo p\<rparr>"

definition chat_law :: "world \<Rightarrow> LawChatRequest \<Rightarrow> LawChatResponse io" where
  "chat_law w req =
     io_bind (search_law_with_answer w (req_question req) (req_top_k req)) (\<lambda>out.
     io_return \<lparr>resp_ok = True, resp_answer = fst out,
                resp_sources = map source_of_point (snd out)\<rparr>)"

definition chat_law_stream :: "world \<Rightarrow> LawChatRequest \<Rightarrow> pystr list io io" where
  "chat_law_stream w req =
     io_bind (stream_law_answer w (req_question req) (req_top_k req)) (\<lambda>out.
     io_return (fst out))"

definition chat_law_graph :: "world \<Rightarrow> LawChatRequest \<Rightarrow> LawChatResponse io" where
  "chat_law_graph w req =
     io_bind (answer_law_question_graph w (req_question req) (req_top_k req)) (\<lambda>out.
     io_return \<lparr>resp_ok = True, resp_answer = fst out,
                resp_sources = map source_of_point (snd out)\<rparr>)"

definition chat_law_graph_stream :: "world \<Rightarrow> LawChatRequest \<Rightarrow> pystr list io io" where
  "chat_law_graph_stream w req =
     io_bind (stream_law_answer_graph w (req_question req) (req_top_k req)) (\<lambda>out.
     io_return (fst out))"

text \<open>A route: the framework validates the body, then calls the handler.\<close>

definition route :: "(LawChatRequest \<Rightarrow> 'a io) \<Rightarrow> request_body \<Rightarrow> 'a io" where
  "route handler body =
     (case LawChatRequest_validate body of
        Inl e \<Rightarrow> io_raise e
      | Inr req \<Rightarrow> handler req)"

definition post_chat :: "world \<Rightarrow> request_body \<Rightarrow> LawChatResponse io" where
  "post_chat w = route (chat_law w)"

definition post_chat_stream :: "world \<Rightarrow> request_body \<Rightarrow> pystr list io io" where
  "post_chat_stream w = route (chat_law_stream w)"

definition post_chat_graph :: "world \<Rightarrow> request_body \<Rightarrow> LawChatResponse io" where
  "post_chat_graph w = route (chat_law_graph w)"

definition post_chat_graph_stream :: "world \<Rightarrow> request_body \<Rightarrow> pystr list io io" where
  "post_chat_graph_stream w = route (chat_law_graph_stream w)"

section \<open>Reading a pipeline state\<close>

text \<open>
  The keys present in a state, and the relation between a state and a later one in which
  every key that was present still has its value.
\<close>

definition state_keys :: "GraphState \<Rightarrow> string set" where
  "state_keys s =
     (if st_question s = None then {} else {''question''}) \<union>
     (if st_top_k s = None then {} else {''top_k''}) \<union>
     (if st_embed_ms s = None then {} else {''embed_ms''}) \<union>
     (if st_qdrant_ms s = None then {} else {''qdrant_ms''}) \<union>
     (if st_query_vec s = None then {} else {''query_vec''}) \<union>
     (if st_points s = None then {} else {''points''}) \<union>
     (if st_context s = None then {} else {''context''}) \<union>
     (if st_system_prompt s = None then {} else {''system_prompt''}) \<union>
     (if st_user_prompt s = None then {} else {''user_prompt''}) \<union>
     (if st_answer s = None then {} else {''answer''})"

definition keeps_present_fields :: "GraphState \<Rightarrow> GraphState \<Rightarrow> bool" where
  "keeps_present_fields s s' =
     ((st_question s \<noteq> None \<longrightarrow> st_question s' = st_question s) \<and>
      (st_top_k s \<noteq> None \<longrightarrow> st_top_k s' = st_top_k s) \<and>
      (st_embed_ms s \<noteq> None \<longrightarrow> st_embed_ms s' = st_embed_ms s) \<and>
      (st_qdrant_ms s \<noteq> None \<longrightarrow> st_qdrant_ms s' = st_qdrant_ms s) \<and>
      (st_query_vec s \<noteq> None \<longrightarrow> st_query_vec s' = st_query_vec s) \<and>
      (st_points s \<noteq> None \<longrightarrow> st_points s' = st_points s) \<and>
      (st_context s \<noteq> None \<longrightarrow> st_context s' = st_context s) \<and>
      (st_system_prompt s \<noteq> None \<longrightarrow> st_system_prompt s' = st_system_prompt s) \<and>
      (st_user_prompt s \<noteq> None \<longrightarrow> st_user_prompt s' = st_user_prompt s) \<and>
      (st_answer s \<noteq> None \<longrightarrow> st_answer s' = st_answer s))"

section \<open>Reading an assembled context\<close>

text \<open>
  A line is a header line when it begins with the four code points every header begins
  with. The text of a section is its lines, each ended by a newline.
\<close>

definition is_header_line :: "pystr \<Rightarrow> bool" where
  "is_header_line l = (take 4 l = ascii ''['' @ [47928, 49436] @ ascii '' '')"

definition section_text :: "int \<Rightarrow> nat \<Rightarrow> point \<Rightarrow> pystr" where
  "section_text max_chars_per_doc i p =
     concat (map (\<lambda>l. l @ [10]) (section_lines max_chars_per_doc i p))"

text \<open>
  The lines of a text, as \<^verbatim>\<open>s.split("\n")\<close> gives them, and the number a decimal text
  denotes.
\<close>

fun split_lines :: "pystr \<Rightarrow> pystr list" where
  "split_lines [] = [[]]"
| "split_lines (c # cs) =
     (if c = 10 then [] # split_lines cs
      else (case split_lines cs of [] \<Rightarrow> [[c]] | l # ls \<Rightarrow> (c # l) # ls))"

definition decimal_value :: "pystr \<Rightarrow> nat" where
  "decimal_value s = foldl (\<lambda>a d. 10 * a + (d - 48)) 0 s"

section \<open>A concrete configuration and concrete collaborators\<close>

text \<open>
  A configuration with the OpenAI provider and every setting filled in, and
  collaborators that answer every request: one embedding of one dimension per text, two
  neighbours (the second without texts), a completion, and a stream of five chunks of
  which two carry text. The theorems below are run on them.
\<close>

definition example_config :: config where
  "example_config =
     \<lparr>QDRANT_URL = ascii ''http://qdrant:6333/'', QDRANT_API_KEY = [],
      QDRANT_COLLECTION_NAME = ascii ''law_qa_v1'', QDRANT_COLLECTION_OAI = ascii ''KLAC'',
      QDRANT_TIMEOUT_SEC = 30, EMBED_PROVIDER = ascii ''openai'',
      OPENAI_API_KEY_LAWBOT = ascii ''sk'', OPENAI_LAWBOT_MODEL = ascii ''gpt-4.1-mini'',
      OPENAI_BASE_URL = [], OPENAI_TIMEOUT_SEC = 60, OPENAI_TEMPERATURE = 0,
      OPENAI_MAX_TOKENS = 700\<rparr>"

definition example_hits :: "raw_hit list" where
  "example_hits =
     [\<lparr>hit_id = Some (IdInt 7), hit_score = Some 1,
       hit_payload = Some (\<lambda>k. if k = ''question'' then Some (ascii ''q1'')
                               else if k = ''answer'' then Some (ascii '' a1 '')
                               else None)\<rparr>,
      \<lparr>hit_id = Some (IdStr (ascii ''u2'')), hit_score = Some 0, hit_payload = None\<rparr>]"

definition example_chunks :: "chunk list" where
  "example_chunks =
     [Chunk [Choice (Some (Delta (Some (ascii ''ab''))))],
      Chunk [],
      Chunk [Choice (Some (Delta (Some [])))],
      Chunk [Choice None],
      Chunk [Choice (Some (Delta (Some (ascii ''c''))))]]"

definition example_world :: world where
  "example_world =
     \<lparr>cfg = example_config,
      environ = (\<lambda>k. if k = ''OPENAI_API_KEY'' then Some (ascii ''sk'') else None),
      perf_counter = (\<lambda>tr. real (length tr)),
      embeddings_create = (\<lambda>tr client model texts. Inr (map (\<lambda>t. [1]) texts)),
      kure_encode = (\<lambda>tr model texts. Inr (map (\<lambda>t. [1]) texts)),
      qdrant_post = (\<lambda>tr url headers body timeout.
                       Inr \<lparr>status_code = 200, resp_result = example_hits\<rparr>),
      chat_create = (\<lambda>tr client req. Inr [Some (ascii '' ok '')]),
      chat_create_stream = (\<lambda>tr client req. Inr example_chunks)\<rparr>"

text \<open>The same world with a vector store that finds no neighbour.\<close>

definition empty_store_world :: world where
  "empty_store_world =
     example_world\<lparr>qdrant_post := (\<lambda>tr url headers body timeout.
                                      Inr \<lparr>status_code = 200, resp_result = []\<rparr>)\<rparr>"

text \<open>The same world with both collection names blank.\<close>

definition no_collection_world :: world where
  "no_collection_world =
     example_world\<lparr>cfg := example_config\<lparr>QDRANT_COLLECTION_NAME := ascii '' '',
                                           QDRANT_COLLECTION_OAI := []\<rparr>\<rparr>"

text \<open>A neighbour with the given question and answer texts.\<close>

definition text_point :: "pystr option \<Rightarrow> pystr option \<Rightarrow> point" where
  "text_point q a =
     \<lparr>pt_id = ascii ''1'', pt_score = 1, pt_dataset = None, pt_category = None,
      pt_question = q, pt_answer = a, pt_answerSnippet = None, pt_docNo = None,
      pt_collection = ascii ''KLAC''\<rparr>"

text \<open>The same world with the KURE provider selected in the environment.\<close>

definition kure_world :: world where
  "kure_world =
     example_world\<lparr>environ := (\<lambda>k. if k = ''EMBED_PROVIDER'' then Some (ascii '' KURE '')
                                      else None)\<rparr>"

section \<open>Laws of the effects\<close>

lemma io_bind_return [simp]: "io_bind (io_return x) f = f x"
  by (simp add: io_bind_def io_return_def)

lemma io_bind_raise [simp]: "io_bind (io_raise e) f = io_raise e"
  by (simp add: io_bind_def io_raise_def)

lemma io_bind_return_right [simp]: "io_bind m io_return = m"
  by (auto simp: io_bind_def io_return_def fun_eq_iff split: prod.splits sum.splits)

lemma io_bind_apply:
  "io_bind m f tr = (case m tr of (Inl e, tr') \<Rightarrow> (Inl e, tr') | (Inr x, tr') \<Rightarrow> f x tr')"
  by (simp add: io_bind_def)

lemma io_bind_Inr:
  "io_bind m f tr = (Inr y, tr'') \<longleftrightarrow> (\<exists>x tr'. m tr = (Inr x, tr') \<and> f x tr' = (Inr y, tr''))"
  by (auto simp: io_bind_def split: prod.splits sum.splits)

lemmas io_defs = io_bind_def io_return_def io_raise_def io_catch_def io_call_def io_read_def
  index0_def subscript_def get_default_def

lemmas str_defs = ascii_def py_isspace_def lstrip_def rstrip_def strip_def rstrip_char_def
  lower_cp_def lower_def replace_nl_def py_or_def or_empty_def

section \<open>The compiled graphs run their nodes in sequence\<close>

lemma run_graph_END [simp]: "run_graph g fuel ''__end__'' = io_return"
  by (rule ext) (simp add: run_graph.simps END_def)

lemma run_graph_Suc:
  "name \<noteq> END \<Longrightarrow> run_graph g (Suc fuel) name state =
     (case map_of (g_nodes g) name of
        None \<Rightarrow> io_raise (KeyError name)
      | Some node \<Rightarrow>
          io_bind (node state) (\<lambda>state'.
            case map_of (g_edges g) name of
              None \<Rightarrow> io_return state'
            | Some next_name \<Rightarrow> run_graph g fuel next_name state'))"
  by (subst run_graph.simps) simp

lemma invoke_full:
  "invoke (LAW_GRAPH_FULL w) state =
     io_bind (node_embed w state) (\<lambda>s1.
     io_bind (node_retrieve w s1) (\<lambda>s2.
     io_bind (node_prompt w s2) (\<lambda>s3. node_generate w s3)))"
  by (simp add: invoke_def LAW_GRAPH_FULL_def build_graph_full_def StateGraph_def add_node_def
      set_entry_point_def add_edge_def END_def numeral_eq_Suc run_graph_Suc)

lemma invoke_prep:
  "invoke (LAW_GRAPH_PREP w) state =
     io_bind (node_embed w state) (\<lambda>s1.
     io_bind (node_retrieve w s1) (\<lambda>s2. node_prompt w s2))"
  by (simp add: invoke_def LAW_GRAPH_PREP_def build_graph_prep_def StateGraph_def add_node_def
      set_entry_point_def add_edge_def END_def numeral_eq_Suc run_graph_Suc)

text \<open>
  The direct pipeline names the active collection, the graph pipeline leaves the choice
  to the search: both resolve to the same collection.
\<close>

lemma qdrant_search_laws_active:
  "qdrant_search_laws w v k (Some (active_collection_name (cfg w))) = qdrant_search_laws w v k None"
  by (simp add: qdrant_search_laws_def py_or_def or_empty_def)

section \<open>The direct pipeline and the graph pipeline\<close>

text \<open>
  C1. For every question and every \<open>top_k\<close>, with the same collaborators, the direct
  pipeline \<open>search_law_with_answer\<close> and the graph pipeline \<open>answer_law_question_graph\<close>
  are the same computation: from every history of calls they make the same calls in the
  same order and return the same answer with the same neighbour list, or raise the same
  error.
\<close>

theorem direct_pipeline_eq_graph_pipeline:
  "search_law_with_answer w query top_k = answer_law_question_graph w query top_k"
proof (rule ext)
  fix tr
  show "search_law_with_answer w query top_k tr = answer_law_question_graph w query top_k tr"
    unfolding search_law_with_answer_def answer_law_question_graph_def invoke_full
      qdrant_search_laws_active Let_def
    by (simp add: node_embed_def node_retrieve_def node_prompt_def node_generate_def
        initial_state_def subscript_def get_default_def build_prompts_def Let_def
        io_bind_apply io_read_def io_return_def index0_def io_raise_def
        split: prod.splits sum.splits list.splits)
qed

section \<open>The concrete collaborators, run\<close>

lemmas example_defs = example_world_def example_config_def example_hits_def example_chunks_def
  empty_store_world_def no_collection_world_def

lemma batches_single: "batches 64 [x] = [[x]]"
  by (simp add: batches.simps[of 64 "[x]"] batches.simps[of 64 "[]"])

lemma upt_1_4: "[Suc 0..<4] = [1, 2, 3::nat]"
  by (simp add: upt_rec)

lemma example_embed:
  "embed_texts example_world [q] tr =
     (Inr [[1]], tr @ [EmbeddingsCreate (ascii ''text-embedding-3-small'') [clean_text q]])"
  by (simp add: embed_texts_def embed_provider_def getenv_default_def embed_texts_openai_def
      get_oai_client_def oai_embed_model_def batches_single upt_1_4 Let_def
      io_defs str_defs example_defs)

lemma example_search:
  "qdrant_search_laws example_world v k None tr =
     (Inr (map (point_of_hit (ascii ''KLAC'')) example_hits),
      tr @ [QdrantPost (ascii ''http://qdrant:6333/collections/KLAC/points/search'')
              [(ascii ''Content-Type'', ascii ''application/json'')]
              \<lparr>sb_vector = v, sb_limit = k, sb_with_payload = True, sb_with_vector = False\<rparr>])"
  by (simp add: qdrant_search_laws_def active_collection_name_def qdrant_headers_def Let_def
      io_defs str_defs example_world_def example_config_def)

lemma empty_store_embed:
  "embed_texts empty_store_world [q] tr =
     (Inr [[1]], tr @ [EmbeddingsCreate (ascii ''text-embedding-3-small'') [clean_text q]])"
  by (simp add: embed_texts_def embed_provider_def getenv_default_def embed_texts_openai_def
      get_oai_client_def oai_embed_model_def batches_single upt_1_4 Let_def
      io_defs str_defs example_defs)

lemma empty_store_search:
  "qdrant_search_laws empty_store_world v k None tr =
     (Inr [],
      tr @ [QdrantPost (ascii ''http://qdrant:6333/collections/KLAC/points/search'')
              [(ascii ''Content-Type'', ascii ''application/json'')]
              \<lparr>sb_vector = v, sb_limit = k, sb_with_payload = True, sb_with_vector = False\<rparr>])"
  by (simp add: qdrant_search_laws_def active_collection_name_def qdrant_headers_def Let_def
      io_defs str_defs example_defs)

lemma example_client:
  "openai_client (cfg example_world) tr =
     (Inr \<lparr>cl_api_key = ascii ''sk'', cl_base_url = None\<rparr>, tr)"
  by (simp add: openai_client_def io_defs str_defs example_defs)

lemma example_chat:
  "call_openai_chat example_world s u tr =
     (Inr (ascii ''ok''),
      tr @ [ChatCreate \<lparr>cl_api_key = ascii ''sk'', cl_base_url = None\<rparr>
              (chat_request_of example_config s u)])"
  by (simp add: call_openai_chat_def openai_client_def Let_def
      io_defs str_defs example_world_def example_config_def)

lemma example_stream_backend:
  "chat_create_stream example_world tr client req = Inr example_chunks"
  by (simp add: example_world_def)

lemma example_search_direct:
  "fst (search_law_with_answer example_world q k tr) =
     Inr (ascii ''ok'', map (point_of_hit (ascii ''KLAC'')) example_hits)"
  by (simp add: search_law_with_answer_def qdrant_search_laws_active Let_def io_bind_apply
      example_embed example_search example_chat index0_def io_return_def)

lemma example_search_direct_trace:
  "length (snd (search_law_with_answer example_world q k tr)) = length tr + 3 \<and>
   snd (search_law_with_answer example_world q k tr) ! length tr =
     EmbeddingsCreate (ascii ''text-embedding-3-small'') [clean_text q]"
  by (simp add: search_law_with_answer_def qdrant_search_laws_active Let_def io_bind_apply
      example_embed example_search example_chat index0_def io_return_def nth_append)

lemma example_stream_direct:
  "fst (stream_law_answer example_world q k tr) =
     Inr (call_openai_chat_stream example_world
            (fst (build_prompts q (build_context_from_points
                    (map (point_of_hit (ascii ''KLAC'')) example_hits) 900)))
            (snd (build_prompts q (build_context_from_points
                    (map (point_of_hit (ascii ''KLAC'')) example_hits) 900))),
          map (point_of_hit (ascii ''KLAC'')) example_hits)"
  by (simp add: stream_law_answer_def qdrant_search_laws_active Let_def io_bind_apply
      example_embed example_search index0_def io_return_def)

lemma example_graph_run:
  "\<exists>final tr'. invoke (LAW_GRAPH_FULL example_world) (initial_state q k) tr = (Inr final, tr')"
  by (simp add: invoke_full node_embed_def node_retrieve_def node_prompt_def node_generate_def
      initial_state_def subscript_def get_default_def Let_def io_bind_apply io_read_def
      example_embed example_search example_chat index0_def io_return_def)

section \<open>The stages of the graph pipeline and the state\<close>

lemma node_embed_frame:
  "node_embed w st tr = (Inr st', tr') \<Longrightarrow>
   \<exists>v d. st' = st\<lparr>st_query_vec := Some v, st_embed_ms := Some d\<rparr>"
  by (auto simp: node_embed_def io_bind_apply io_read_def io_return_def io_raise_def
      subscript_def index0_def Let_def split: prod.splits sum.splits option.splits list.splits)

lemma node_retrieve_frame:
  "node_retrieve w st tr = (Inr st', tr') \<Longrightarrow>
   \<exists>p d. st' = st\<lparr>st_points := Some p, st_qdrant_ms := Some d,
                   st_context := Some (build_context_from_points p 900)\<rparr>"
  by (auto simp: node_retrieve_def io_bind_apply io_read_def io_return_def io_raise_def
      subscript_def Let_def split: prod.splits sum.splits option.splits)

lemma node_prompt_frame:
  "node_prompt w st tr = (Inr st', tr') \<Longrightarrow>
   \<exists>s u. st' = st\<lparr>st_system_prompt := Some s, st_user_prompt := Some u\<rparr>"
  by (auto simp: node_prompt_def io_bind_apply io_return_def io_raise_def
      subscript_def Let_def split: prod.splits sum.splits option.splits)

lemma node_generate_frame:
  "node_generate w st tr = (Inr st', tr') \<Longrightarrow> \<exists>a. st' = st\<lparr>st_answer := Some a\<rparr>"
  by (auto simp: node_generate_def io_bind_apply io_return_def io_raise_def
      subscript_def Let_def split: prod.splits sum.splits option.splits)

text \<open>
  C5. Every stage of the graph pipeline writes only its own fields: a stage that
  returns, returns the state it was given with exactly its designated fields set
  (embed: \<open>query_vec\<close>, \<open>embed_ms\<close>; retrieve: \<open>points\<close>, \<open>qdrant_ms\<close>, \<open>context\<close>;
  prompt: \<open>system_prompt\<close>, \<open>user_prompt\<close>; generate: \<open>answer\<close>), whatever the state.
  In a run of the full graph from the initial state, which holds \<open>question\<close> and
  \<open>top_k\<close> only, the four stages run once each in this order, each adds exactly its own
  keys to the keys present before it, and each leaves every field that was present
  before it unchanged: every field is written once, by one stage, and not changed
  afterwards.
\<close>

theorem stages_write_only_their_own_fields:
  "(node_embed w st tr = (Inr st', tr') \<longrightarrow>
      (\<exists>v d. st' = st\<lparr>st_query_vec := Some v, st_embed_ms := Some d\<rparr>)) \<and>
   (node_retrieve w st tr = (Inr st', tr') \<longrightarrow>
      (\<exists>p d. st' = st\<lparr>st_points := Some p, st_qdrant_ms := Some d,
                      st_context := Some (build_context_from_points p 900)\<rparr>)) \<and>
   (node_prompt w st tr = (Inr st', tr') \<longrightarrow>
      (\<exists>s u. st' = st\<lparr>st_system_prompt := Some s, st_user_prompt := Some u\<rparr>)) \<and>
   (node_generate w st tr = (Inr st', tr') \<longrightarrow> (\<exists>a. st' = st\<lparr>st_answer := Some a\<rparr>)) \<and>
   (invoke (LAW_GRAPH_FULL w) (initial_state question top_k) tr0 = (Inr final, tr4) \<longrightarrow>
      (\<exists>s1 s2 s3 tr1 tr2 tr3.
         node_embed w (initial_state question top_k) tr0 = (Inr s1, tr1) \<and>
         node_retrieve w s1 tr1 = (Inr s2, tr2) \<and>
         node_prompt w s2 tr2 = (Inr s3, tr3) \<and>
         node_generate w s3 tr3 = (Inr final, tr4) \<and>
         state_keys (initial_state question top_k) = {''question'', ''top_k''} \<and>
         state_keys s1 = state_keys (initial_state question top_k) \<union> {''query_vec'', ''embed_ms''} \<and>
         state_keys s2 = state_keys s1 \<union> {''points'', ''qdrant_ms'', ''context''} \<and>
         state_keys s3 = state_keys s2 \<union> {''system_prompt'', ''user_prompt''} \<and>
         state_keys final = state_keys s3 \<union> {''answer''} \<and>
         keeps_present_fields (initial_state question top_k) s1 \<and>
         keeps_present_fields s1 s2 \<and>
         keeps_present_fields s2 s3 \<and>
         keeps_present_fields s3 final))"
proof (intro conjI impI)
  assume run: "invoke (LAW_GRAPH_FULL w) (initial_state question top_k) tr0 = (Inr final, tr4)"
  let ?s0 = "initial_state question top_k"
  from run obtain s1 tr1 s2 tr2 s3 tr3 where
    e: "node_embed w ?s0 tr0 = (Inr s1, tr1)" and
    r: "node_retrieve w s1 tr1 = (Inr s2, tr2)" and
    p: "node_prompt w s2 tr2 = (Inr s3, tr3)" and
    g: "node_generate w s3 tr3 = (Inr final, tr4)"
    unfolding invoke_full io_bind_Inr by blast
  from node_embed_frame[OF e] obtain v d where
    s1: "s1 = ?s0\<lparr>st_query_vec := Some v, st_embed_ms := Some d\<rparr>" by blast
  from node_retrieve_frame[OF r] obtain pts d' where
    s2: "s2 = s1\<lparr>st_points := Some pts, st_qdrant_ms := Some d',
                  st_context := Some (build_context_from_points pts 900)\<rparr>" by blast
  from node_prompt_frame[OF p] obtain sp up where
    s3: "s3 = s2\<lparr>st_system_prompt := Some sp, st_user_prompt := Some up\<rparr>" by blast
  from node_generate_frame[OF g] obtain a where
    s4: "final = s3\<lparr>st_answer := Some a\<rparr>" by blast
  have k0: "state_keys ?s0 = {''question'', ''top_k''}"
    by (auto simp: state_keys_def initial_state_def)
  have k1: "state_keys s1 = state_keys ?s0 \<union> {''query_vec'', ''embed_ms''}"
    unfolding s1 by (auto simp: state_keys_def initial_state_def)
  have k2: "state_keys s2 = state_keys s1 \<union> {''points'', ''qdrant_ms'', ''context''}"
    unfolding s2 s1 by (auto simp: state_keys_def initial_state_def)
  have k3: "state_keys s3 = state_keys s2 \<union> {''system_prompt'', ''user_prompt''}"
    unfolding s3 s2 s1 by (auto simp: state_keys_def initial_state_def)
  have k4: "state_keys final = state_keys s3 \<union> {''answer''}"
    unfolding s4 s3 s2 s1 by (auto simp: state_keys_def initial_state_def)
  have f1: "keeps_present_fields ?s0 s1"
    unfolding s1 by (simp add: keeps_present_fields_def initial_state_def)
  have f2: "keeps_present_fields s1 s2"
    unfolding s2 s1 by (simp add: keeps_present_fields_def initial_state_def)
  have f3: "keeps_present_fields s2 s3"
    unfolding s3 s2 s1 by (simp add: keeps_present_fields_def initial_state_def)
  have f4: "keeps_present_fields s3 final"
    unfolding s4 s3 s2 s1 by (simp add: keeps_present_fields_def initial_state_def)
  from e r p g k0 k1 k2 k3 k4 f1 f2 f3 f4
  show "\<exists>s1 s2 s3 tr1 tr2 tr3.
         node_embed w (initial_state question top_k) tr0 = (Inr s1, tr1) \<and>
         node_retrieve w s1 tr1 = (Inr s2, tr2) \<and>
         node_prompt w s2 tr2 = (Inr s3, tr3) \<and>
         node_generate w s3 tr3 = (Inr final, tr4) \<and>
         state_keys (initial_state question top_k) = {''question'', ''top_k''} \<and>
         state_keys s1 = state_keys (initial_state question top_k) \<union> {''query_vec'', ''embed_ms''} \<and>
         state_keys s2 = state_keys s1 \<union> {''points'', ''qdrant_ms'', ''context''} \<and>
         state_keys s3 = state_keys s2 \<union> {''system_prompt'', ''user_prompt''} \<and>
         state_keys final = state_keys s3 \<union> {''answer''} \<and>
         keeps_present_fields (initial_state question top_k) s1 \<and>
         keeps_present_fields s1 s2 \<and>
         keeps_present_fields s2 s3 \<and>
         keeps_present_fields s3 final"
    by blast
qed (rule node_embed_frame node_retrieve_frame node_prompt_frame node_generate_frame, assumption)+

text \<open>
  On the concrete collaborators the full graph runs to its end; by the theorem its final
  state holds all ten keys, and the question and \<open>top_k\<close> it started from.
\<close>

theorem stages_write_only_their_own_fields_witness:
  "\<exists>final tr.
     invoke (LAW_GRAPH_FULL example_world) (initial_state (ascii ''hi'') 3) [] = (Inr final, tr) \<and>
     state_keys final =
       {''question'', ''top_k''} \<union> {''query_vec'', ''embed_ms''} \<union>
       {''points'', ''qdrant_ms'', ''context''} \<union> {''system_prompt'', ''user_prompt''} \<union>
       {''answer''} \<and>
     st_question final = Some (ascii ''hi'') \<and> st_top_k final = Some 3"
proof -
  let ?s0 = "initial_state (ascii ''hi'') 3"
  obtain final tr where
    run: "invoke (LAW_GRAPH_FULL example_world) ?s0 [] = (Inr final, tr)"
    using example_graph_run by blast
  have "invoke (LAW_GRAPH_FULL example_world) ?s0 [] = (Inr final, tr) \<longrightarrow>
      (\<exists>s1 s2 s3 tr1 tr2 tr3.
         node_embed example_world ?s0 [] = (Inr s1, tr1) \<and>
         node_retrieve example_world s1 tr1 = (Inr s2, tr2) \<and>
         node_prompt example_world s2 tr2 = (Inr s3, tr3) \<and>
         node_generate example_world s3 tr3 = (Inr final, tr) \<and>
         state_keys ?s0 = {''question'', ''top_k''} \<and>
         state_keys s1 = state_keys ?s0 \<union> {''query_vec'', ''embed_ms''} \<and>
         state_keys s2 = state_keys s1 \<union> {''points'', ''qdrant_ms'', ''context''} \<and>
         state_keys s3 = state_keys s2 \<union> {''system_prompt'', ''user_prompt''} \<and>
         state_keys final = state_keys s3 \<union> {''answer''} \<and>
         keeps_present_fields ?s0 s1 \<and>
         keeps_present_fields s1 s2 \<and>
         keeps_present_fields s2 s3 \<and>
         keeps_present_fields s3 final)"
    using stages_write_only_their_own_fields
      [of example_world ?s0 "[]" ?s0 "[]" "ascii ''hi''" 3 "[]" final tr]
    by (elim conjE)
  with run obtain s1 s2 s3 where
    k0: "state_keys ?s0 = {''question'', ''top_k''}" and
    k1: "state_keys s1 = state_keys ?s0 \<union> {''query_vec'', ''embed_ms''}" and
    k2: "state_keys s2 = state_keys s1 \<union> {''points'', ''qdrant_ms'', ''context''}" and
    k3: "state_keys s3 = state_keys s2 \<union> {''system_prompt'', ''user_prompt''}" and
    k4: "state_keys final = state_keys s3 \<union> {''answer''}" and
    f1: "keeps_present_fields ?s0 s1" and f2: "keeps_present_fields s1 s2" and
    f3: "keeps_present_fields s2 s3" and f4: "keeps_present_fields s3 final"
    by (elim impE exE conjE) (rule TrueI | assumption)+
  have keys: "state_keys final =
       {''question'', ''top_k''} \<union> {''query_vec'', ''embed_ms''} \<union>
       {''points'', ''qdrant_ms'', ''context''} \<union> {''system_prompt'', ''user_prompt''} \<union>
       {''answer''}"
    unfolding k4 k3 k2 k1 k0 by (rule refl)
  have q0: "st_question ?s0 = Some (ascii ''hi'')" "st_top_k ?s0 = Some 3"
    by (simp_all add: initial_state_def)
  from f1 q0 have q1: "st_question s1 = Some (ascii ''hi'')" "st_top_k s1 = Some 3"
    unfolding keeps_present_fields_def by simp_all
  from f2 q1 have q2: "st_question s2 = Some (ascii ''hi'')" "st_top_k s2 = Some 3"
    unfolding keeps_present_fields_def by simp_all
  from f3 q2 have q3: "st_question s3 = Some (ascii ''hi'')" "st_top_k s3 = Some 3"
    unfolding keeps_present_fields_def by simp_all
  from f4 q3 have q4: "st_question final = Some (ascii ''hi'')" "st_top_k final = Some 3"
    unfolding keeps_present_fields_def by simp_all
  from run keys q4 show ?thesis by (intro exI conjI)
qed

section \<open>Synchronous and streaming entry operations\<close>

text \<open>
  C2. For every question and every \<open>top_k\<close>, with the same collaborators and from the
  same history of calls, the synchronous entry operation is the streaming entry
  operation followed by the completion call on the prompts built from the neighbour list
  the streaming operation returned, and it returns that same neighbour list. So whenever
  the synchronous operation returns a neighbour list the streaming operation returns the
  same list, whenever both return their lists are equal, and when the streaming operation
  raises (embedding or retrieval failed) the synchronous one raises the same error.
\<close>

theorem sync_and_stream_retrieve_same_neighbors:
  "search_law_with_answer w query top_k =
     io_bind (stream_law_answer w query top_k) (\<lambda>out.
       io_bind (call_openai_chat w
                  (fst (build_prompts query (build_context_from_points (snd out) 900)))
                  (snd (build_prompts query (build_context_from_points (snd out) 900))))
         (\<lambda>answer. io_return (answer, snd out))) \<and>
   (\<forall>answer pts. fst (search_law_with_answer w query top_k tr) = Inr (answer, pts) \<longrightarrow>
      (\<exists>gen. fst (stream_law_answer w query top_k tr) = Inr (gen, pts))) \<and>
   (\<forall>gen pts answer pts'.
      fst (stream_law_answer w query top_k tr) = Inr (gen, pts) \<longrightarrow>
      fst (search_law_with_answer w query top_k tr) = Inr (answer, pts') \<longrightarrow> pts' = pts) \<and>
   (\<forall>e. fst (stream_law_answer w query top_k tr) = Inl e \<longrightarrow>
      search_law_with_answer w query top_k tr = (Inl e, snd (stream_law_answer w query top_k tr)))"
proof -
  have eq: "search_law_with_answer w query top_k =
     io_bind (stream_law_answer w query top_k) (\<lambda>out.
       io_bind (call_openai_chat w
                  (fst (build_prompts query (build_context_from_points (snd out) 900)))
                  (snd (build_prompts query (build_context_from_points (snd out) 900))))
         (\<lambda>answer. io_return (answer, snd out)))"
    by (rule ext)
      (simp add: search_law_with_answer_def stream_law_answer_def Let_def io_bind_apply
        io_return_def split: prod.splits sum.splits)
  have a: "\<exists>gen. fst (stream_law_answer w query top_k tr) = Inr (gen, pts)"
    if "fst (search_law_with_answer w query top_k tr) = Inr (answer, pts)" for answer pts
    using that unfolding search_law_with_answer_def stream_law_answer_def Let_def
    by (auto simp: io_bind_apply io_return_def split: prod.splits sum.splits)
  have b: "pts' = pts"
    if "fst (stream_law_answer w query top_k tr) = Inr (gen, pts)"
      "fst (search_law_with_answer w query top_k tr) = Inr (answer, pts')"
    for gen pts answer pts'
    using a[OF that(2)] that(1) by auto
  have c: "search_law_with_answer w query top_k tr =
      (Inl e, snd (stream_law_answer w query top_k tr))"
    if "fst (stream_law_answer w query top_k tr) = Inl e" for e
    using that by (subst eq) (auto simp: io_bind_apply split: prod.splits sum.splits)
  from eq a b c show ?thesis by blast
qed

text \<open>
  On the concrete collaborators both operations return, with the two neighbours of the
  store; the theorem gives the equality of the two lists.
\<close>

theorem sync_and_stream_retrieve_same_neighbors_witness:
  "fst (search_law_with_answer example_world (ascii ''hi'') 3 []) =
     Inr (ascii ''ok'', map (point_of_hit (ascii ''KLAC'')) example_hits) \<and>
   (\<exists>gen. fst (stream_law_answer example_world (ascii ''hi'') 3 []) =
      Inr (gen, map (point_of_hit (ascii ''KLAC'')) example_hits))"
proof -
  have s: "fst (search_law_with_answer example_world (ascii ''hi'') 3 []) =
     Inr (ascii ''ok'', map (point_of_hit (ascii ''KLAC'')) example_hits)"
    by (rule example_search_direct)
  from sync_and_stream_retrieve_same_neighbors[of example_world "ascii ''hi''" 3 "[]"]
  have "\<forall>answer pts.
      fst (search_law_with_answer example_world (ascii ''hi'') 3 []) = Inr (answer, pts) \<longrightarrow>
      (\<exists>gen. fst (stream_law_answer example_world (ascii ''hi'') 3 []) = Inr (gen, pts))"
    by (elim conjE)
  with s show ?thesis by blast
qed

section \<open>The vector search and its configuration\<close>

text \<open>
  C8. For every query vector and every \<open>top_k\<close>, when the resolved collection name (the
  name given, or else the active collection's) is empty after trimming,
  \<open>qdrant_search_laws\<close> raises a configuration error (the one for the collection, or the
  one for the URL when the URL is empty too, which is checked first) and the history of
  calls is unchanged: no request is issued, so none is retried.
\<close>

theorem empty_collection_is_configuration_error:
  assumes "strip (or_empty (py_or collection_name (Some (active_collection_name (cfg w))))) = []"
  shows "qdrant_search_laws w query_vec top_k collection_name tr =
           (Inl (RuntimeError (if QDRANT_URL (cfg w) = [] then QDRANT_URL_empty
                               else QDRANT_COLLECTION_empty)), tr)"
  using assms by (simp add: qdrant_search_laws_def Let_def io_raise_def)

theorem empty_collection_is_configuration_error_witness:
  "strip (or_empty (py_or None (Some (active_collection_name (cfg no_collection_world))))) = [] \<and>
   qdrant_search_laws no_collection_world [1] 3 None [] =
     (Inl (RuntimeError QDRANT_COLLECTION_empty), [])"
proof -
  have h: "strip (or_empty (py_or None (Some (active_collection_name (cfg no_collection_world))))) = []"
    by (simp add: active_collection_name_def str_defs example_defs)
  have u: "QDRANT_URL (cfg no_collection_world) \<noteq> []"
    by (simp add: str_defs example_defs)
  from empty_collection_is_configuration_error[OF h, of "[1]" 3 "[]"] u h
  show ?thesis by simp
qed

section \<open>The token stream\<close>

lemma stream_fragments_filter:
  "stream_fragments chunks = filter (\<lambda>d. d \<noteq> []) (map (\<lambda>c. or_empty (chunk_delta c)) chunks)"
  by (induction chunks) (auto simp: or_empty_def split: option.splits)

text \<open>The generator, consumed: one request, and the non-empty deltas in order.\<close>

lemma call_openai_chat_stream_yields:
  assumes "openai_client (cfg w) tr = (Inr client, tr)"
      and "chat_create_stream w tr client (chat_request_of (cfg w) system_prompt user_prompt) =
             Inr chunks"
  shows "call_openai_chat_stream w system_prompt user_prompt tr =
           (Inr (filter (\<lambda>d. d \<noteq> []) (map (\<lambda>c. or_empty (chunk_delta c)) chunks)),
            tr @ [ChatCreateStream client (chat_request_of (cfg w) system_prompt user_prompt)])"
  using assms
  by (simp add: call_openai_chat_stream_def Let_def io_bind_apply io_call_def io_return_def
      stream_fragments_filter)

text \<open>What the two streaming entry operations return when they return.\<close>

lemma stream_law_answer_gen:
  "fst (stream_law_answer w query top_k tr) = Inr (gen, pts) \<Longrightarrow>
   gen = call_openai_chat_stream w
           (fst (build_prompts query (build_context_from_points pts 900)))
           (snd (build_prompts query (build_context_from_points pts 900)))"
  unfolding stream_law_answer_def Let_def
  by (auto simp: io_bind_apply io_return_def split: prod.splits sum.splits)

lemma stream_graph_eq_direct:
  "stream_law_answer_graph w question top_k = stream_law_answer w question top_k"
proof (rule ext)
  fix tr
  show "stream_law_answer_graph w question top_k tr = stream_law_answer w question top_k tr"
    unfolding stream_law_answer_def stream_law_answer_graph_def invoke_prep
      qdrant_search_laws_active Let_def
    by (simp add: node_embed_def node_retrieve_def node_prompt_def
        initial_state_def subscript_def get_default_def build_prompts_def Let_def
        io_bind_apply io_read_def io_return_def index0_def io_raise_def
        split: prod.splits sum.splits list.splits)
qed

text \<open>
  C9. Let \<open>gen\<close> be the token stream that a streaming entry operation,
  \<open>stream_law_answer\<close> or \<open>stream_law_answer_graph\<close>, returned for a question together with
  the neighbours \<open>pts\<close>. When it is consumed with a configured client and the backend's
  stream for the prompts of that question and those neighbours delivers the chunks
  \<open>chunks\<close>, one streaming request is made and the fragments yielded are exactly the
  non-empty deltas of the chunks, in order, a chunk without choices, without a delta or
  without content counting as empty: no yielded fragment is the empty string, the
  yielded fragments are a subsequence of the chunks' deltas, and there are at most as
  many of them as chunks.
\<close>

theorem token_stream_yields_nonempty_fragments:
  assumes "fst (stream_law_answer w query top_k tr0) = Inr (gen, pts) \<or>
           fst (stream_law_answer_graph w query top_k tr0) = Inr (gen, pts)"
      and "openai_client (cfg w) tr = (Inr client, tr)"
      and "chat_create_stream w tr client
             (chat_request_of (cfg w)
                (fst (build_prompts query (build_context_from_points pts 900)))
                (snd (build_prompts query (build_context_from_points pts 900)))) = Inr chunks"
  shows "gen tr =
           (Inr (filter (\<lambda>d. d \<noteq> []) (map (\<lambda>c. or_empty (chunk_delta c)) chunks)),
            tr @ [ChatCreateStream client
                    (chat_request_of (cfg w)
                       (fst (build_prompts query (build_context_from_points pts 900)))
                       (snd (build_prompts query (build_context_from_points pts 900))))]) \<and>
         [] \<notin> set (filter (\<lambda>d. d \<noteq> []) (map (\<lambda>c. or_empty (chunk_delta c)) chunks)) \<and>
         subseq (filter (\<lambda>d. d \<noteq> []) (map (\<lambda>c. or_empty (chunk_delta c)) chunks))
           (map (\<lambda>c. or_empty (chunk_delta c)) chunks) \<and>
         length (filter (\<lambda>d. d \<noteq> []) (map (\<lambda>c. or_empty (chunk_delta c)) chunks))
           \<le> length chunks"
proof -
  let ?sp = "fst (build_prompts query (build_context_from_points pts 900))"
  let ?up = "snd (build_prompts query (build_context_from_points pts 900))"
  from assms(1) have "fst (stream_law_answer w query top_k tr0) = Inr (gen, pts)"
    by (simp add: stream_graph_eq_direct)
  then have gen: "gen = call_openai_chat_stream w ?sp ?up"
    by (rule stream_law_answer_gen)
  have run: "gen tr =
      (Inr (filter (\<lambda>d. d \<noteq> []) (map (\<lambda>c. or_empty (chunk_delta c)) chunks)),
       tr @ [ChatCreateStream client (chat_request_of (cfg w) ?sp ?up)])"
    unfolding gen by (rule call_openai_chat_stream_yields[OF assms(2) assms(3)])
  have len: "length (filter (\<lambda>d. d \<noteq> []) (map (\<lambda>c. or_empty (chunk_delta c)) chunks))
      \<le> length chunks"
    using length_filter_le[of "\<lambda>d. d \<noteq> []" "map (\<lambda>c. or_empty (chunk_delta c)) chunks"]
    by simp
  from run len show ?thesis
    by (simp add: subseq_filter_left)
qed

text \<open>
  The concrete stream has five chunks: text, no choice, an empty delta, no delta, text.
  The stream returned by \<open>stream_law_answer\<close> yields the two texts, and so does the stream
  returned by \<open>stream_law_answer_graph\<close>.
\<close>

theorem token_stream_yields_nonempty_fragments_witness:
  "(\<exists>gen pts.
      fst (stream_law_answer example_world (ascii ''hi'') 3 []) = Inr (gen, pts) \<and>
      fst (gen []) = Inr [ascii ''ab'', ascii ''c'']) \<and>
   (\<exists>gen pts.
      fst (stream_law_answer_graph example_world (ascii ''hi'') 3 []) = Inr (gen, pts) \<and>
      fst (gen []) = Inr [ascii ''ab'', ascii ''c'']) \<and>
   length example_chunks = 5"
proof -
  let ?pts = "map (point_of_hit (ascii ''KLAC'')) example_hits"
  let ?sp = "fst (build_prompts (ascii ''hi'') (build_context_from_points ?pts 900))"
  let ?up = "snd (build_prompts (ascii ''hi'') (build_context_from_points ?pts 900))"
  let ?gen = "call_openai_chat_stream example_world ?sp ?up"
  have r: "fst (stream_law_answer example_world (ascii ''hi'') 3 []) = Inr (?gen, ?pts)"
    by (rule example_stream_direct)
  have g: "fst (stream_law_answer_graph example_world (ascii ''hi'') 3 []) = Inr (?gen, ?pts)"
    unfolding stream_graph_eq_direct by (rule example_stream_direct)
  have f: "filter (\<lambda>d. d \<noteq> []) (map (\<lambda>c. or_empty (chunk_delta c)) example_chunks) =
      [ascii ''ab'', ascii ''c'']"
    by (simp add: example_chunks_def chunk_delta_def or_empty_def ascii_def)
  have d: "fst (?gen []) = Inr [ascii ''ab'', ascii ''c'']"
    using token_stream_yields_nonempty_fragments
      [of example_world "ascii ''hi''" 3 "[]" ?gen ?pts "[]" _ example_chunks,
       OF disjI1[OF r] example_client example_stream_backend]
    by (simp add: f)
  have d': "fst (?gen []) = Inr [ascii ''ab'', ascii ''c'']"
    using token_stream_yields_nonempty_fragments
      [of example_world "ascii ''hi''" 3 "[]" ?gen ?pts "[]" _ example_chunks,
       OF disjI2[OF g] example_client example_stream_backend]
    by (simp add: f)
  have l: "length example_chunks = 5" by (simp add: example_chunks_def)
  from r d g d' l show ?thesis by blast
qed

section \<open>The context assembler\<close>

lemma py_join_snoc_blank: "py_join sep (L @ [[]]) = concat (map (\<lambda>l. l @ sep) L)"
proof (induction L)
  case Nil
  show ?case by simp
next
  case (Cons x L)
  then show ?case by (cases L) simp_all
qed

lemma py_join_append:
  "ys \<noteq> [] \<Longrightarrow> py_join sep (xs @ ys) = concat (map (\<lambda>l. l @ sep) xs) @ py_join sep ys"
proof (induction xs)
  case Nil
  show ?case by simp
next
  case (Cons x xs)
  then show ?case by (cases "xs @ ys") simp_all
qed

lemma strip_core:
  assumes "X \<noteq> []" "\<not> py_isspace (hd X)" "\<not> py_isspace (last X)"
  shows "strip (X @ [10]) = X"
proof -
  from assms(1,2) have l: "dropWhile py_isspace (X @ [10]) = X @ [10]"
    by (cases X) simp_all
  have sp: "py_isspace 10" by (simp add: py_isspace_def)
  from assms(1,3) have r: "dropWhile py_isspace (rev X) = rev X"
    by (cases "rev X") (auto simp: last_rev[symmetric] simp del: last_rev)
  show ?thesis
    by (simp add: strip_def lstrip_def rstrip_def l sp r)
qed

lemma strip_last_nonspace: "strip s \<noteq> [] \<Longrightarrow> \<not> py_isspace (last (strip s))"
proof -
  assume ne: "strip s \<noteq> []"
  let ?d = "dropWhile py_isspace (rev (lstrip s))"
  have s: "strip s = rev ?d" by (simp add: strip_def rstrip_def)
  with ne have "?d \<noteq> []" by simp
  then have "\<not> py_isspace (hd ?d)" by (rule hd_dropWhile)
  moreover have "last (rev ?d) = hd ?d" using \<open>?d \<noteq> []\<close> by (simp add: last_rev)
  ultimately show ?thesis by (simp add: s)
qed

lemma truncate_answer_last_nonspace:
  assumes "truncate_answer C (strip s) \<noteq> []"
  shows "\<not> py_isspace (last (truncate_answer C (strip s)))"
proof (cases "0 < C \<and> C < int (length (strip s))")
  case True
  then show ?thesis by (simp add: truncate_answer_def truncation_marker_def py_isspace_def)
next
  case False
  with assms show ?thesis by (auto simp: truncate_answer_def strip_last_nonspace)
qed

lemma doc_header_hd: "doc_header i \<noteq> [] \<and> hd (doc_header i) = 91"
  by (simp add: doc_header_def ascii_def)

lemma doc_header_last: "last (doc_header i) = 93"
  by (simp add: doc_header_def ascii_def)

text \<open>A section begins with its header and ends with a character that is not a space.\<close>

lemma section_lines_shape:
  "\<exists>rest. section_lines C i p = doc_header i # rest"
  by (simp add: section_lines_def Let_def)

lemma section_lines_last:
  "last (section_lines C i p) \<noteq> [] \<and> \<not> py_isspace (last (last (section_lines C i p)))"
proof -
  let ?q = "strip (or_empty (pt_question p))"
  let ?a = "truncate_answer C (strip (or_empty (pt_answer p)))"
  have h: "\<not> py_isspace (last (doc_header i))" "doc_header i \<noteq> []"
    by (simp_all add: doc_header_last doc_header_hd py_isspace_def)
  have q: "?q \<noteq> [] \<Longrightarrow> \<not> py_isspace (last (ascii ''Q: '' @ ?q))"
    using strip_last_nonspace[of "or_empty (pt_question p)"] by simp
  have a: "?a \<noteq> [] \<Longrightarrow> \<not> py_isspace (last (ascii ''A: '' @ ?a))"
    using truncate_answer_last_nonspace[of C "or_empty (pt_answer p)"] by simp
  show ?thesis
    using h q a by (auto simp: section_lines_def Let_def)
qed

lemma context_lines_append:
  "context_lines C i (ps @ qs) = context_lines C i ps @ context_lines C (i + length ps) qs"
  by (induction ps arbitrary: i) simp_all

lemma upt_shift: "[i..<i + Suc n] = i # [Suc i..<Suc i + n]"
  by (simp add: upt_conv_Cons del: upt_Suc)

lemma context_lines_concat:
  "context_lines C i ps =
     concat (map (\<lambda>(j, p). doc_lines C j p) (zip [i..<i + length ps] ps))"
proof (induction ps arbitrary: i)
  case Nil
  show ?case by simp
next
  case (Cons p ps)
  have "[i..<i + length (p # ps)] = i # [Suc i..<Suc i + length ps]"
    using upt_shift[of i "length ps"] by simp
  then show ?case using Cons.IH[of "Suc i"] by (simp del: upt_Suc)
qed

text \<open>
  The joined lines of a non-empty neighbour list are the section texts joined by a
  newline.
\<close>

lemma py_join_Cons: "ys \<noteq> [] \<Longrightarrow> py_join sep (x # ys) = x @ sep @ py_join sep ys"
  by (cases ys) simp_all

lemma joined_sections:
  "ps \<noteq> [] \<Longrightarrow>
   py_join [10] (context_lines C i ps) =
     py_join [10] (map (\<lambda>(j, p). section_text C j p) (zip [i..<i + length ps] ps))"
proof (induction ps arbitrary: i)
  case Nil
  then show ?case by simp
next
  case (Cons p ps)
  have up: "[i..<i + length (p # ps)] = i # [Suc i..<Suc i + length ps]"
    using upt_shift[of i "length ps"] by simp
  show ?case
  proof (cases "ps = []")
    case True
    then show ?thesis
      by (simp add: doc_lines_def section_text_def py_join_snoc_blank)
  next
    case False
    let ?rest = "map (\<lambda>(j, p). section_text C j p) (zip [Suc i..<Suc i + length ps] ps)"
    have cl: "context_lines C (Suc i) ps \<noteq> []"
      using False by (cases ps) (simp_all add: doc_lines_def)
    have rest: "?rest \<noteq> []"
      using False by (simp del: upt_Suc)
    have "py_join [10] (context_lines C i (p # ps)) =
        concat (map (\<lambda>l. l @ [10]) (doc_lines C i p)) @ py_join [10] (context_lines C (Suc i) ps)"
      using cl by (simp add: py_join_append)
    also have "concat (map (\<lambda>l. l @ [10]) (doc_lines C i p)) = section_text C i p @ [10]"
      by (simp add: doc_lines_def section_text_def)
    also have "py_join [10] (context_lines C (Suc i) ps) = py_join [10] ?rest"
      by (rule Cons.IH[OF False])
    also have "(section_text C i p @ [10]) @ py_join [10] ?rest =
        py_join [10] (section_text C i p # ?rest)"
      using py_join_Cons[OF rest, of "[10]" "section_text C i p"] by simp
    finally show ?thesis
      unfolding up by simp
  qed
qed

text \<open>
  The lines of a non-empty neighbour list: the first header, more lines, and the closing
  empty line; the line before the closing one is not empty and does not end in a space.
\<close>

lemma context_lines_shape:
  "ps \<noteq> [] \<Longrightarrow>
   \<exists>L. context_lines C i ps = (doc_header i # L) @ [[]] \<and>
       last (doc_header i # L) \<noteq> [] \<and> \<not> py_isspace (last (last (doc_header i # L)))"
proof (induction ps arbitrary: i)
  case Nil
  then show ?case by simp
next
  case (Cons p ps)
  obtain rest where r: "section_lines C i p = doc_header i # rest"
    using section_lines_shape by blast
  have sl: "last (doc_header i # rest) \<noteq> []"
      "\<not> py_isspace (last (last (doc_header i # rest)))"
    using section_lines_last[of C i p] unfolding r by simp_all
  show ?case
  proof (cases ps)
    case Nil
    have "context_lines C i (p # ps) = (doc_header i # rest) @ [[]]"
      using Nil r by (simp add: doc_lines_def)
    with sl show ?thesis by blast
  next
    case (Cons p' ps')
    then have "ps \<noteq> []" by simp
    from Cons.IH[OF this, of "Suc i"] obtain L where
      L: "context_lines C (Suc i) ps = (doc_header (Suc i) # L) @ [[]]" and
      l1: "last (doc_header (Suc i) # L) \<noteq> []" and
      l2: "\<not> py_isspace (last (last (doc_header (Suc i) # L)))"
      by blast
    let ?L' = "rest @ [[]] @ doc_header (Suc i) # L"
    have c: "context_lines C i (p # ps) = (doc_header i # ?L') @ [[]]"
      using r L by (simp add: doc_lines_def)
    have la: "last (doc_header i # ?L') = last (doc_header (Suc i) # L)"
      by simp
    from c l1 l2 show ?thesis unfolding la[symmetric] by blast
  qed
qed

lemma concat_nl_split:
  "M \<noteq> [] \<Longrightarrow>
   concat (map (\<lambda>l. l @ [10::nat]) M) = (concat (map (\<lambda>l. l @ [10]) (butlast M)) @ last M) @ [10]"
proof -
  assume "M \<noteq> []"
  then have "M = butlast M @ [last M]" by simp
  then have "concat (map (\<lambda>l. l @ [10::nat]) M) =
      concat (map (\<lambda>l. l @ [10]) (butlast M @ [last M]))" by simp
  then show ?thesis by simp
qed

lemma concat_nl_hd:
  "x \<noteq> [] \<Longrightarrow> hd (concat (map (\<lambda>l. l @ [10::nat]) (butlast (x # L))) @ last (x # L)) = hd x"
  by (cases L) simp_all

text \<open>The final \<open>strip\<close> removes exactly the newline that ends the last section.\<close>

lemma build_context_newline:
  assumes "ps \<noteq> []"
  shows "build_context_from_points ps C @ [10] = py_join [10] (context_lines C 1 ps)"
proof -
  from context_lines_shape[OF assms, of C 1] obtain L where
    L: "context_lines C 1 ps = (doc_header 1 # L) @ [[]]" and
    l1: "last (doc_header 1 # L) \<noteq> []" and
    l2: "\<not> py_isspace (last (last (doc_header 1 # L)))"
    by blast
  let ?M = "doc_header 1 # L"
  let ?X = "concat (map (\<lambda>l. l @ [10]) (butlast ?M)) @ last ?M"
  have raw: "py_join [10] (context_lines C 1 ps) = ?X @ [10]"
    unfolding L py_join_snoc_blank by (rule concat_nl_split) simp
  have Xne: "?X \<noteq> []" using l1 by simp
  have Xhd: "hd ?X = 91"
    using concat_nl_hd[of "doc_header 1" L] doc_header_hd[of 1] by simp
  have Xlast: "last ?X = last (last ?M)"
    using l1 by (rule last_appendR)
  have "strip (?X @ [10]) = ?X"
  proof (rule strip_core)
    show "?X \<noteq> []" by (rule Xne)
    show "\<not> py_isspace (hd ?X)" unfolding Xhd by (simp add: py_isspace_def)
    show "\<not> py_isspace (last ?X)" unfolding Xlast by (rule l2)
  qed
  then show ?thesis
    unfolding build_context_from_points_def raw by simp
qed

lemma section_text_unfold:
  "section_text C i p =
     doc_header i @ [10] @
     (if strip (or_empty (pt_question p)) \<noteq> []
      then ascii ''Q: '' @ strip (or_empty (pt_question p)) @ [10] else []) @
     (if truncate_answer C (strip (or_empty (pt_answer p))) \<noteq> []
      then ascii ''A: '' @ truncate_answer C (strip (or_empty (pt_answer p))) @ [10] else [])"
  by (simp add: section_text_def section_lines_def Let_def)

lemma truncate_answer_cap:
  "0 < C \<Longrightarrow>
   length (truncate_answer C a) \<le> nat C + length truncation_marker \<and>
   (C < int (length a) \<longrightarrow> truncate_answer C a = take (nat C) a @ truncation_marker) \<and>
   (int (length a) \<le> C \<longrightarrow> truncate_answer C a = a)"
  by (auto simp: truncate_answer_def)

text \<open>The index in a header is the decimal text of the index.\<close>

lemma decimal_value_snoc: "decimal_value (xs @ [d]) = 10 * decimal_value xs + (d - 48)"
  by (simp add: decimal_value_def)

lemma str_of_nat_decimal: "decimal_value (str_of_nat n) = n"
proof (induction n rule: str_of_nat.induct)
  case (1 n)
  show ?case
  proof (cases "n < 10")
    case True
    then show ?thesis
      by (subst str_of_nat.simps) (simp add: decimal_value_def)
  next
    case False
    with "1.IH" have "decimal_value (str_of_nat (n div 10)) = n div 10" by simp
    with False show ?thesis
      by (subst str_of_nat.simps) (simp add: decimal_value_snoc)
  qed
qed

lemma str_of_nat_digits: "\<forall>d\<in>set (str_of_nat n). 48 \<le> d \<and> d \<le> 57"
proof (induction n rule: str_of_nat.induct)
  case (1 n)
  show ?case
  proof (cases "n < 10")
    case True
    then show ?thesis
      by (subst str_of_nat.simps) simp
  next
    case False
    with "1.IH" have "\<forall>d\<in>set (str_of_nat (n div 10)). 48 \<le> d \<and> d \<le> 57" by simp
    moreover have "n mod 10 < 10" by simp
    ultimately show ?thesis
      using False by (subst str_of_nat.simps) auto
  qed
qed

lemma doc_header_numbered:
  "\<forall>i. doc_header i = ascii ''['' @ [47928, 49436] @ ascii '' '' @ str_of_nat i @ ascii '']'' \<and>
       decimal_value (str_of_nat i) = i \<and>
       (\<forall>d\<in>set (str_of_nat i). 48 \<le> d \<and> d \<le> 57)"
  by (simp add: doc_header_def str_of_nat_decimal str_of_nat_digits)

lemma str_of_nat_small:
  "str_of_nat (Suc 0) = [49]" "str_of_nat 2 = [50]" "str_of_nat 7 = [55]"
  by (simp_all add: str_of_nat.simps[of "Suc 0"] str_of_nat.simps[of 2] str_of_nat.simps[of 7])

text \<open>
  C3, as the specification states it, ties the truncation marker to the original answer.
  The assembler trims the answer first and compares the cap with what is left: an answer
  of six characters, two of them text between blanks, under the cap 2 is longer than
  the cap and is shown in full, with no marker.
\<close>

theorem trimmed_answer_no_marker_counterexample:
  "2 < int (length (ascii ''  a1  '')) \<and>
   build_context_from_points [text_point None (Some (ascii ''  a1  ''))] 2 =
     ascii ''['' @ [47928, 49436] @ ascii '' 1]'' @ [10] @ ascii ''A: a1'' \<and>
   8230 \<notin> set (build_context_from_points [text_point None (Some (ascii ''  a1  ''))] 2)"
proof -
  have o: "build_context_from_points [text_point None (Some (ascii ''  a1  ''))] 2 =
     ascii ''['' @ [47928, 49436] @ ascii '' 1]'' @ [10] @ ascii ''A: a1''"
    by (simp add: build_context_from_points_def doc_lines_def section_lines_def
        text_point_def truncate_answer_def doc_header_def str_of_nat_small Let_def str_defs)
  show ?thesis unfolding o by (simp add: ascii_def)
qed

text \<open>
  C3, amended. The context of the empty neighbour list is the empty string. For a
  non-empty list and every cap \<open>C\<close>, the context followed by a newline is the section
  texts of the neighbours joined by a newline (so a blank line separates two sections),
  one section per neighbour, in the order of the list, numbered from 1: the header of
  the section of index \<open>i\<close> is the bracketed label followed by the decimal text of \<open>i\<close>.
  A section is its header line, the line \<open>Q:\<close> with the trimmed question when that is
  not empty, and the line \<open>A:\<close> with the answer text when that is not empty. For a cap
  \<open>C > 0\<close> the answer text is never longer than \<open>C\<close> plus the length of the truncation
  marker, and the marker is appended exactly when the answer, trimmed of the white space
  around it, is longer than \<open>C\<close>: then the text is the first \<open>C\<close> characters of the
  trimmed answer followed by the marker, and otherwise it is the trimmed answer.
\<close>

theorem context_sections_in_rank_order_and_capped:
  "build_context_from_points [] C = [] \<and>
   (points \<noteq> [] \<longrightarrow>
      build_context_from_points points C @ [10] =
        py_join [10] (map (\<lambda>(i, p). section_text C i p) (zip [1..<1 + length points] points))) \<and>
   (\<forall>i p. section_text C i p =
      doc_header i @ [10] @
      (if strip (or_empty (pt_question p)) \<noteq> []
       then ascii ''Q: '' @ strip (or_empty (pt_question p)) @ [10] else []) @
      (if truncate_answer C (strip (or_empty (pt_answer p))) \<noteq> []
       then ascii ''A: '' @ truncate_answer C (strip (or_empty (pt_answer p))) @ [10] else [])) \<and>
   (0 < C \<longrightarrow>
      (\<forall>a. length (truncate_answer C a) \<le> nat C + length truncation_marker \<and>
           (C < int (length a) \<longrightarrow> truncate_answer C a = take (nat C) a @ truncation_marker) \<and>
           (int (length a) \<le> C \<longrightarrow> truncate_answer C a = a))) \<and>
   (\<forall>i. doc_header i = ascii ''['' @ [47928, 49436] @ ascii '' '' @ str_of_nat i @ ascii '']'' \<and>
        decimal_value (str_of_nat i) = i \<and>
        (\<forall>d\<in>set (str_of_nat i). 48 \<le> d \<and> d \<le> 57))"
proof -
  have c1: "build_context_from_points [] C = []"
    by (simp add: build_context_from_points_def strip_def lstrip_def rstrip_def)
  have c2: "points \<noteq> [] \<longrightarrow>
      build_context_from_points points C @ [10] =
        py_join [10] (map (\<lambda>(i, p). section_text C i p) (zip [1..<1 + length points] points))"
  proof
    assume ne: "points \<noteq> []"
    show "build_context_from_points points C @ [10] =
        py_join [10] (map (\<lambda>(i, p). section_text C i p) (zip [1..<1 + length points] points))"
      unfolding build_context_newline[OF ne] by (rule joined_sections[OF ne])
  qed
  have c3: "\<forall>i p. section_text C i p =
      doc_header i @ [10] @
      (if strip (or_empty (pt_question p)) \<noteq> []
       then ascii ''Q: '' @ strip (or_empty (pt_question p)) @ [10] else []) @
      (if truncate_answer C (strip (or_empty (pt_answer p))) \<noteq> []
       then ascii ''A: '' @ truncate_answer C (strip (or_empty (pt_answer p))) @ [10] else [])"
    by (intro allI) (rule section_text_unfold)
  have c4: "0 < C \<longrightarrow>
      (\<forall>a. length (truncate_answer C a) \<le> nat C + length truncation_marker \<and>
           (C < int (length a) \<longrightarrow> truncate_answer C a = take (nat C) a @ truncation_marker) \<and>
           (int (length a) \<le> C \<longrightarrow> truncate_answer C a = a))"
    by (intro impI allI) (rule truncate_answer_cap)
  show ?thesis
    by (rule conjI[OF c1 conjI[OF c2 conjI[OF c3 conjI[OF c4 doc_header_numbered]]]])
qed

lemma example_points:
  "map (point_of_hit col) example_hits =
     [\<lparr>pt_id = str_of_nat 7, pt_score = 1, pt_dataset = None, pt_category = None,
       pt_question = Some (ascii ''q1''), pt_answer = Some (ascii '' a1 ''),
       pt_answerSnippet = None, pt_docNo = None, pt_collection = col\<rparr>,
      \<lparr>pt_id = ascii ''u2'', pt_score = 0, pt_dataset = None, pt_category = None,
       pt_question = None, pt_answer = None,
       pt_answerSnippet = None, pt_docNo = None, pt_collection = col\<rparr>]"
  by (simp add: example_hits_def point_of_hit_def py_or_def Let_def)

text \<open>
  The two concrete neighbours under the cap 1: the first answer, trimmed to two
  characters, is cut to one character and the marker; the second neighbour has no text
  and its section is its header. The headers carry the digits 1 and 2.
\<close>

theorem context_sections_in_rank_order_and_capped_witness:
  "build_context_from_points (map (point_of_hit (ascii ''KLAC'')) example_hits) 1 =
     ascii ''['' @ [47928, 49436] @ ascii '' 1]'' @ [10] @
     ascii ''Q: q1'' @ [10] @
     ascii ''A: a'' @ [8230] @ [10, 10] @
     ascii ''['' @ [47928, 49436] @ ascii '' 2]'' \<and>
   length (truncate_answer 1 (ascii ''a1'')) \<le> nat 1 + length truncation_marker \<and>
   truncate_answer 1 (ascii ''a1'') = take (nat 1) (ascii ''a1'') @ truncation_marker \<and>
   truncate_answer 1 (ascii ''a'') = ascii ''a''"
proof -
  let ?pts = "map (point_of_hit (ascii ''KLAC'')) example_hits"
  note t = context_sections_in_rank_order_and_capped[of 1 ?pts]
  have ne: "?pts \<noteq> []" by (simp add: example_hits_def)
  from t ne have j: "build_context_from_points ?pts 1 @ [10] =
      py_join [10] (map (\<lambda>(i, p). section_text 1 i p) (zip [1..<1 + length ?pts] ?pts))"
    by (elim conjE) simp
  from t have s: "\<And>i p. section_text 1 i p =
      doc_header i @ [10] @
      (if strip (or_empty (pt_question p)) \<noteq> []
       then ascii ''Q: '' @ strip (or_empty (pt_question p)) @ [10] else []) @
      (if truncate_answer 1 (strip (or_empty (pt_answer p))) \<noteq> []
       then ascii ''A: '' @ truncate_answer 1 (strip (or_empty (pt_answer p))) @ [10] else [])"
    by (elim conjE) simp
  from t have c: "\<And>a. length (truncate_answer 1 a) \<le> nat 1 + length truncation_marker \<and>
           (1 < int (length a) \<longrightarrow> truncate_answer 1 a = take (nat 1) a @ truncation_marker) \<and>
           (int (length a) \<le> 1 \<longrightarrow> truncate_answer 1 a = a)"
    by (elim conjE) simp
  from t have h: "\<And>i. doc_header i =
      ascii ''['' @ [47928, 49436] @ ascii '' '' @ str_of_nat i @ ascii '']''"
    by (elim conjE) simp
  have u: "[1..<1 + length ?pts] = [1, 2]"
    by (simp add: example_hits_def upt_rec)
  have r: "py_join [10] (map (\<lambda>(i, p). section_text 1 i p) (zip [1..<1 + length ?pts] ?pts)) =
     (ascii ''['' @ [47928, 49436] @ ascii '' 1]'' @ [10] @
      ascii ''Q: q1'' @ [10] @
      ascii ''A: a'' @ [8230] @ [10, 10] @
      ascii ''['' @ [47928, 49436] @ ascii '' 2]'') @ [10]"
    unfolding u unfolding example_points
    by (simp add: s h str_of_nat_small str_defs truncate_answer_def truncation_marker_def)
  from j r have "build_context_from_points ?pts 1 @ [10] =
     (ascii ''['' @ [47928, 49436] @ ascii '' 1]'' @ [10] @
      ascii ''Q: q1'' @ [10] @
      ascii ''A: a'' @ [8230] @ [10, 10] @
      ascii ''['' @ [47928, 49436] @ ascii '' 2]'') @ [10]"
    by (rule trans)
  then have first: "build_context_from_points ?pts 1 =
      ascii ''['' @ [47928, 49436] @ ascii '' 1]'' @ [10] @
      ascii ''Q: q1'' @ [10] @
      ascii ''A: a'' @ [8230] @ [10, 10] @
      ascii ''['' @ [47928, 49436] @ ascii '' 2]''"
    by (simp only: append_same_eq)
  from c[of "ascii ''a1''"] c[of "ascii ''a''"] first show ?thesis
    by (simp add: ascii_def)
qed

lemma is_header_line_doc_header: "is_header_line (doc_header i)"
  by (simp add: is_header_line_def doc_header_def ascii_def)

lemma not_header_lines:
  "\<not> is_header_line (ascii ''Q: '' @ q)" "\<not> is_header_line (ascii ''A: '' @ a)"
  "\<not> is_header_line []"
  by (simp_all add: is_header_line_def ascii_def)

lemma filter_header_section_lines:
  "filter is_header_line (doc_lines C i p) = [doc_header i]"
  by (simp add: doc_lines_def section_lines_def Let_def is_header_line_doc_header
      not_header_lines)

lemma filter_header_context_lines:
  "filter is_header_line (context_lines C i ps) = map doc_header [i..<i + length ps]"
proof (induction ps arbitrary: i)
  case Nil
  show ?case by simp
next
  case (Cons p ps)
  have "[i..<i + length (p # ps)] = i # [Suc i..<Suc i + length ps]"
    using upt_shift[of i "length ps"] by simp
  then show ?case
    using Cons.IH[of "Suc i"] by (simp add: filter_header_section_lines del: upt_Suc)
qed

lemma truncate_answer_empty: "truncate_answer C [] = []"
  by (auto simp: truncate_answer_def)

text \<open>The lines of a text that is a join of entries are the lines of the entries.\<close>

lemma split_lines_ne [simp]: "split_lines s \<noteq> []"
  by (induction s) (auto split: list.splits)

lemma split_lines_nl: "split_lines (a @ 10 # b) = split_lines a @ split_lines b"
proof (induction a)
  case Nil
  show ?case by simp
next
  case (Cons c a)
  obtain l ls where l: "split_lines a = l # ls"
    using split_lines_ne[of a] by (cases "split_lines a") auto
  show ?case using Cons l by simp
qed

lemma split_lines_join:
  "L \<noteq> [] \<Longrightarrow> split_lines (py_join [10] L) = concat (map split_lines L)"
proof (induction L)
  case Nil
  then show ?case by simp
next
  case (Cons x L)
  show ?case
  proof (cases "L = []")
    case True
    then show ?thesis by simp
  next
    case False
    then show ?thesis
      using Cons.IH by (simp add: py_join_Cons split_lines_nl)
  qed
qed

lemma split_lines_single: "10 \<notin> set s \<Longrightarrow> split_lines s = [s]"
  by (induction s) auto

lemma concat_split_single:
  "\<forall>l\<in>set L. 10 \<notin> set l \<Longrightarrow> concat (map split_lines L) = L"
  by (induction L) (auto simp: split_lines_single)

lemma py_join_snoc: "M \<noteq> [] \<Longrightarrow> py_join sep (M @ [[]]) = py_join sep M @ sep"
proof (induction M)
  case Nil
  then show ?case by simp
next
  case (Cons x M)
  show ?case
  proof (cases "M = []")
    case True
    then show ?thesis by simp
  next
    case False
    then show ?thesis
      using Cons.IH by (simp add: py_join_Cons)
  qed
qed

lemma output_header_lines:
  assumes "ps \<noteq> []"
  shows "filter is_header_line (split_lines (build_context_from_points ps C)) =
         filter is_header_line (concat (map split_lines (context_lines C 1 ps)))"
proof -
  from context_lines_shape[OF assms, of C 1] obtain L where
    L: "context_lines C 1 ps = (doc_header 1 # L) @ [[]]" by blast
  let ?M = "doc_header 1 # L"
  have "build_context_from_points ps C @ [10] = py_join [10] ?M @ [10]"
    unfolding build_context_newline[OF assms] L by (rule py_join_snoc) simp
  then have out: "build_context_from_points ps C = py_join [10] ?M"
    by (simp only: append_same_eq)
  have "split_lines (build_context_from_points ps C) = concat (map split_lines ?M)"
    unfolding out by (rule split_lines_join) simp
  then show ?thesis
    unfolding L by (simp add: not_header_lines)
qed

lemma doc_header_no_newline: "10 \<notin> set (doc_header i)"
  using str_of_nat_digits[of i] by (auto simp: doc_header_def ascii_def)

lemma truncate_answer_no_newline: "10 \<notin> set a \<Longrightarrow> 10 \<notin> set (truncate_answer C a)"
  by (auto simp: truncate_answer_def truncation_marker_def dest: in_set_takeD)

lemma context_lines_no_newline:
  assumes "\<forall>p\<in>set ps. 10 \<notin> set (strip (or_empty (pt_question p))) \<and>
                      10 \<notin> set (strip (or_empty (pt_answer p)))"
  shows "\<forall>l\<in>set (context_lines C i ps). 10 \<notin> set l"
  using assms
proof (induction ps arbitrary: i)
  case Nil
  show ?case by simp
next
  case (Cons p ps)
  from Cons.prems have q: "10 \<notin> set (strip (or_empty (pt_question p)))"
    and a: "10 \<notin> set (truncate_answer C (strip (or_empty (pt_answer p))))"
    by (simp_all add: truncate_answer_no_newline)
  have d: "\<forall>l\<in>set (doc_lines C i p). 10 \<notin> set l"
    using q a doc_header_no_newline[of i]
    by (auto simp: doc_lines_def section_lines_def Let_def ascii_def)
  from Cons.prems have "\<forall>l\<in>set (context_lines C (Suc i) ps). 10 \<notin> set l"
    by (intro Cons.IH) simp
  with d show ?case by auto
qed

text \<open>
  C10, as the specification states it, counts the header lines of the output. The
  assembler trims only the two ends of a text: one neighbour whose answer holds a line
  break followed by a header gives an output with two header lines, the neighbour's own
  and the one inside its answer.
\<close>

theorem header_inside_answer_counterexample:
  "build_context_from_points
     [text_point None (Some (ascii ''x'' @ [10] @ ascii ''['' @ [47928, 49436] @ ascii '' 7]''))]
     900 =
     ascii ''['' @ [47928, 49436] @ ascii '' 1]'' @ [10] @ ascii ''A: x'' @ [10] @
     ascii ''['' @ [47928, 49436] @ ascii '' 7]'' \<and>
   filter is_header_line
     (split_lines
        (build_context_from_points
           [text_point None
              (Some (ascii ''x'' @ [10] @ ascii ''['' @ [47928, 49436] @ ascii '' 7]''))]
           900)) =
     [ascii ''['' @ [47928, 49436] @ ascii '' 1]'', ascii ''['' @ [47928, 49436] @ ascii '' 7]'']"
proof -
  have o: "build_context_from_points
     [text_point None (Some (ascii ''x'' @ [10] @ ascii ''['' @ [47928, 49436] @ ascii '' 7]''))]
     900 =
     ascii ''['' @ [47928, 49436] @ ascii '' 1]'' @ [10] @ ascii ''A: x'' @ [10] @
     ascii ''['' @ [47928, 49436] @ ascii '' 7]''"
    by (simp add: build_context_from_points_def doc_lines_def section_lines_def
        text_point_def truncate_answer_def doc_header_def str_of_nat_small Let_def str_defs)
  show ?thesis unfolding o by (simp add: ascii_def is_header_line_def)
qed

text \<open>
  C10, amended. For every non-empty neighbour list and every cap, the context is not
  empty. Among the lines the assembler emits the header lines are exactly the headers
  of the indices \<open>1..n\<close> in this order, one per neighbour, the header of index \<open>i\<close>
  being the bracketed label followed by the decimal text of \<open>i\<close>; a neighbour whose
  trimmed question and answer are both empty (absent or blank) still contributes its
  header line, followed by the closing empty line only. The context, followed by a
  newline, is these emitted lines joined by newlines, and the header lines of the
  context are the header lines found in the lines of the emitted entries: when no
  trimmed question and no trimmed answer holds a line break, the header lines of the
  context are exactly the headers \<open>1..n\<close> in order, one per neighbour.
\<close>

theorem context_has_one_header_per_neighbor:
  assumes "points \<noteq> []"
  shows "build_context_from_points points C \<noteq> [] \<and>
         filter is_header_line (context_lines C 1 points) =
           map doc_header [1..<1 + length points] \<and>
         length (filter is_header_line (context_lines C 1 points)) = length points \<and>
         build_context_from_points points C @ [10] = py_join [10] (context_lines C 1 points) \<and>
         (\<forall>i p. strip (or_empty (pt_question p)) = [] \<and> strip (or_empty (pt_answer p)) = [] \<longrightarrow>
                doc_lines C i p = [doc_header i, []]) \<and>
         filter is_header_line (split_lines (build_context_from_points points C)) =
           filter is_header_line (concat (map split_lines (context_lines C 1 points))) \<and>
         ((\<forall>p\<in>set points. 10 \<notin> set (strip (or_empty (pt_question p))) \<and>
                          10 \<notin> set (strip (or_empty (pt_answer p)))) \<longrightarrow>
          filter is_header_line (split_lines (build_context_from_points points C)) =
            map doc_header [1..<1 + length points]) \<and>
         (\<forall>i. doc_header i =
                ascii ''['' @ [47928, 49436] @ ascii '' '' @ str_of_nat i @ ascii '']'' \<and>
              decimal_value (str_of_nat i) = i \<and>
              (\<forall>d\<in>set (str_of_nat i). 48 \<le> d \<and> d \<le> 57))"
proof -
  have nl: "build_context_from_points points C @ [10] = py_join [10] (context_lines C 1 points)"
    by (rule build_context_newline[OF assms])
  from context_lines_shape[OF assms, of C 1] obtain L where
    L: "context_lines C 1 points = (doc_header 1 # L) @ [[]]" by blast
  have raw: "py_join [10] (context_lines C 1 points) =
      doc_header 1 @ [10] @ concat (map (\<lambda>l. l @ [10]) L)"
    unfolding L py_join_snoc_blank by simp
  have ne: "build_context_from_points points C \<noteq> []"
  proof
    assume "build_context_from_points points C = []"
    with nl raw have "[10] = doc_header 1 @ [10] @ concat (map (\<lambda>l. l @ [10]) L)"
      by simp
    then have "length [10::nat] = length (doc_header 1 @ [10] @ concat (map (\<lambda>l. l @ [10]) L))"
      by (rule arg_cong)
    then have "doc_header 1 = []" by simp
    with doc_header_hd[of 1] show False by simp
  qed
  have f: "filter is_header_line (context_lines C 1 points) =
      map doc_header [1..<1 + length points]"
    by (rule filter_header_context_lines)
  have len: "length (filter is_header_line (context_lines C 1 points)) = length points"
    unfolding f length_map length_upt by simp
  have blank: "\<forall>i p. strip (or_empty (pt_question p)) = [] \<and>
      strip (or_empty (pt_answer p)) = [] \<longrightarrow> doc_lines C i p = [doc_header i, []]"
    by (simp add: doc_lines_def section_lines_def truncate_answer_empty)
  have out: "filter is_header_line (split_lines (build_context_from_points points C)) =
      filter is_header_line (concat (map split_lines (context_lines C 1 points)))"
    by (rule output_header_lines[OF assms])
  have plain: "(\<forall>p\<in>set points. 10 \<notin> set (strip (or_empty (pt_question p))) \<and>
                          10 \<notin> set (strip (or_empty (pt_answer p)))) \<longrightarrow>
      filter is_header_line (split_lines (build_context_from_points points C)) =
        map doc_header [1..<1 + length points]"
  proof
    assume "\<forall>p\<in>set points. 10 \<notin> set (strip (or_empty (pt_question p))) \<and>
                          10 \<notin> set (strip (or_empty (pt_answer p)))"
    then have "\<forall>l\<in>set (context_lines C 1 points). 10 \<notin> set l"
      by (rule context_lines_no_newline)
    then have "concat (map split_lines (context_lines C 1 points)) = context_lines C 1 points"
      by (rule concat_split_single)
    with out f show "filter is_header_line (split_lines (build_context_from_points points C)) =
        map doc_header [1..<1 + length points]"
      by simp
  qed
  show ?thesis
    by (rule conjI[OF ne conjI[OF f conjI[OF len conjI[OF nl conjI[OF blank
          conjI[OF out conjI[OF plain doc_header_numbered]]]]]]])
qed

text \<open>
  The two concrete neighbours: the second has neither question nor answer, no text holds
  a line break, and the header lines of the context are the headers 1 and 2.
\<close>

theorem context_has_one_header_per_neighbor_witness:
  "map (point_of_hit (ascii ''KLAC'')) example_hits \<noteq> [] \<and>
   build_context_from_points (map (point_of_hit (ascii ''KLAC'')) example_hits) 900 \<noteq> [] \<and>
   filter is_header_line
     (context_lines 900 1 (map (point_of_hit (ascii ''KLAC'')) example_hits)) =
     [doc_header 1, doc_header 2] \<and>
   doc_lines 900 2 (map (point_of_hit (ascii ''KLAC'')) example_hits ! 1) = [doc_header 2, []] \<and>
   filter is_header_line
     (split_lines
        (build_context_from_points (map (point_of_hit (ascii ''KLAC'')) example_hits) 900)) =
     [ascii ''['' @ [47928, 49436] @ ascii '' 1]'', ascii ''['' @ [47928, 49436] @ ascii '' 2]'']"
proof -
  let ?pts = "map (point_of_hit (ascii ''KLAC'')) example_hits"
  have ne: "?pts \<noteq> []" by (simp add: example_hits_def)
  note t = context_has_one_header_per_neighbor[OF ne, of 900]
  have u: "[1..<1 + length ?pts] = [1, 2]"
    by (simp add: example_hits_def upt_rec)
  have b: "strip (or_empty (pt_question (?pts ! 1))) = [] \<and>
      strip (or_empty (pt_answer (?pts ! 1))) = []"
    unfolding example_points by (simp add: str_defs)
  have n: "\<forall>p\<in>set ?pts. 10 \<notin> set (strip (or_empty (pt_question p))) \<and>
                        10 \<notin> set (strip (or_empty (pt_answer p)))"
    unfolding example_points by (simp add: str_defs)
  from t have h: "\<And>i. doc_header i =
      ascii ''['' @ [47928, 49436] @ ascii '' '' @ str_of_nat i @ ascii '']''"
    by (elim conjE) simp
  from t have 1: "doc_lines 900 2 (?pts ! 1) = [doc_header 2, []]"
    using b by blast
  from t have 2: "filter is_header_line (context_lines 900 1 ?pts) = [doc_header 1, doc_header 2]"
    unfolding u by simp
  from t have 3: "build_context_from_points ?pts 900 \<noteq> []" by blast
  from t n have "filter is_header_line (split_lines (build_context_from_points ?pts 900)) =
      map doc_header [1..<1 + length ?pts]"
    by (elim conjE) simp
  then have 4: "filter is_header_line (split_lines (build_context_from_points ?pts 900)) =
      [ascii ''['' @ [47928, 49436] @ ascii '' 1]'', ascii ''['' @ [47928, 49436] @ ascii '' 2]'']"
    unfolding u by (simp add: h str_of_nat_small ascii_def)
  from ne 1 2 3 4 show ?thesis by (intro conjI)
qed

section \<open>No neighbours\<close>

lemma build_context_empty: "build_context_from_points [] C = []"
  by (simp add: build_context_from_points_def strip_def lstrip_def rstrip_def)

lemma build_prompts_nonempty:
  "fst (build_prompts question ctx) \<noteq> [] \<and> snd (build_prompts question ctx) \<noteq> []"
  by (simp add: build_prompts_def Let_def)

text \<open>
  C4, as the specification states it, asks that the context section of the prompt say
  that no grounding documents were found. It does not: with no neighbour the context is
  the empty string, and the user prompt is the template around the question with
  nothing between the line that introduces the documents and the closing instruction.
\<close>

theorem no_neighbors_context_counterexample:
  "build_context_from_points [] 900 = [] \<and>
   snd (build_prompts (ascii ''q'') (build_context_from_points [] 900)) =
     ([51656, 47928] @ ascii '': '') @ ascii ''q'' @
     ([10, 10, 50500, 47000, 45716] @ ascii '' '' @ [52280, 44256] @ ascii '' '' @ [47928, 49436] @ ascii ''('' @ [44540, 44144] @ ascii '')'' @ [51077, 45768, 45796] @ ascii '':'' @ [10]) @
     ([10, 10, 50836, 44396] @ ascii '' '' @ [54805, 49885, 45824, 47196] @ ascii '' '' @ [45813, 54644, 51452, 49464, 50836] @ ascii ''. '' @ [44033] @ ascii '' '' @ [47928, 51109, 51008] @ ascii '' '' @ [44032, 45733, 54620] @ ascii '' '' @ [54620] @ ascii '' ['' @ [47928, 49436] @ ascii '' n] '' @ [44540, 44144, 47484] @ ascii '' '' @ [48537, 51060, 49464, 50836] @ ascii ''.'')"
  by (simp add: build_context_empty build_prompts_def Let_def)

text \<open>
  C4, amended. For every question, when the embedding returns and the vector search
  returns the empty neighbour list, the context is the empty string, the system prompt
  and the user prompt are both non-empty (the user prompt is the template with the
  question and an empty context), and neither assembling the context nor building the
  prompts raises: the synchronous pipeline goes on to the completion call on these
  prompts and returns its answer with the empty list, and the streaming pipeline returns
  its token stream on these prompts with the empty list.
\<close>

theorem no_neighbors_still_builds_prompt:
  assumes "embed_texts w [query] tr = (Inr (v # vs), tr1)"
      and "qdrant_search_laws w v top_k (Some (active_collection_name (cfg w))) tr1 = (Inr [], tr2)"
  shows "build_context_from_points [] 900 = [] \<and>
         fst (build_prompts query []) \<noteq> [] \<and> snd (build_prompts query []) \<noteq> [] \<and>
         search_law_with_answer w query top_k tr =
           io_bind (call_openai_chat w (fst (build_prompts query [])) (snd (build_prompts query [])))
             (\<lambda>answer. io_return (answer, [])) tr2 \<and>
         stream_law_answer w query top_k tr =
           (Inr (call_openai_chat_stream w (fst (build_prompts query []))
                   (snd (build_prompts query [])), []), tr2)"
proof -
  have s: "search_law_with_answer w query top_k tr =
           io_bind (call_openai_chat w (fst (build_prompts query [])) (snd (build_prompts query [])))
             (\<lambda>answer. io_return (answer, [])) tr2"
    using assms
    by (simp add: search_law_with_answer_def Let_def io_bind_apply index0_def io_return_def
        build_context_empty)
  have t: "stream_law_answer w query top_k tr =
           (Inr (call_openai_chat_stream w (fst (build_prompts query []))
                   (snd (build_prompts query [])), []), tr2)"
    using assms
    by (simp add: stream_law_answer_def Let_def io_bind_apply index0_def io_return_def
        build_context_empty)
  from s t build_context_empty[of 900] build_prompts_nonempty[of query "[]"]
  show ?thesis by simp
qed

text \<open>The world whose store finds nothing: the synchronous pipeline returns its answer.\<close>

theorem no_neighbors_still_builds_prompt_witness:
  "fst (search_law_with_answer empty_store_world (ascii ''q'') 3 []) = Inr (ascii ''ok'', []) \<and>
   (\<exists>gen. fst (stream_law_answer empty_store_world (ascii ''q'') 3 []) = Inr (gen, []))"
proof -
  let ?tr1 = "[] @ [EmbeddingsCreate (ascii ''text-embedding-3-small'') [clean_text (ascii ''q'')]]"
  note t = no_neighbors_still_builds_prompt
    [of empty_store_world "ascii ''q''" "[]" "[1]" "[]" ?tr1 3,
     OF empty_store_embed, unfolded qdrant_search_laws_active, OF empty_store_search]
  have c: "\<And>s u tr. call_openai_chat empty_store_world s u tr =
      (Inr (ascii ''ok''),
       tr @ [ChatCreate \<lparr>cl_api_key = ascii ''sk'', cl_base_url = None\<rparr>
               (chat_request_of example_config s u)])"
    by (simp add: call_openai_chat_def openai_client_def Let_def io_defs str_defs example_defs)
  from t have "fst (search_law_with_answer empty_store_world (ascii ''q'') 3 []) =
      Inr (ascii ''ok'', [])"
    by (simp add: io_bind_apply io_return_def c)
  moreover from t have "\<exists>gen. fst (stream_law_answer empty_store_world (ascii ''q'') 3 []) =
      Inr (gen, [])"
    by simp
  ultimately show ?thesis by blast
qed

section \<open>Validation of the request\<close>

lemma route_rejects:
  "LawChatRequest_validate body = Inl e \<Longrightarrow> route handler body tr = (Inl e, tr)"
  by (simp add: route_def io_raise_def)

lemma route_accepts:
  "LawChatRequest_validate body = Inr req \<Longrightarrow> route handler body = handler req"
  by (simp add: route_def)

text \<open>
  Every effect extends the history of calls it starts from; a sequence of effects
  carries out its first effect whatever follows.
\<close>

lemma prefix_snd_bind:
  "(\<And>x tr'. prefix tr' (snd (f x tr'))) \<Longrightarrow> prefix (snd (m tr)) (snd (io_bind m f tr))"
  by (auto simp: io_bind_def split: prod.splits sum.splits)

lemma prefix_bind:
  assumes "\<And>tr'. prefix tr' (snd (m tr'))" and "\<And>x tr'. prefix tr' (snd (f x tr'))"
  shows "prefix tr (snd (io_bind m f tr))"
  using assms(1)[of tr] prefix_snd_bind[of f m tr, OF assms(2)]
  by (rule prefix_order.trans)

lemma prefix_return: "prefix tr (snd (io_return x tr))"
  by (simp add: io_return_def)

lemma prefix_raise: "prefix tr (snd (io_raise e tr))"
  by (simp add: io_raise_def)

lemma prefix_call: "prefix tr (snd (io_call ev backend tr))"
  by (simp add: io_call_def)

lemma index0_prefix: "prefix tr (snd (index0 xs tr))"
  by (cases xs) (simp_all add: index0_def io_return_def io_raise_def)

lemma qdrant_prefix: "prefix tr (snd (qdrant_search_laws w v k c tr))"
  unfolding qdrant_search_laws_def Let_def
  by (auto simp: io_bind_def io_call_def io_raise_def io_return_def
      split: prod.splits sum.splits)

lemma chat_prefix: "prefix tr (snd (call_openai_chat w s u tr))"
  unfolding call_openai_chat_def openai_client_def Let_def
  by (auto simp: io_bind_def io_call_def io_raise_def io_return_def index0_def
      split: prod.splits sum.splits list.splits)

lemma search_runs_embedding:
  "prefix (snd (embed_texts w [query] tr)) (snd (search_law_with_answer w query top_k tr))"
  unfolding search_law_with_answer_def Let_def
  by (intro prefix_snd_bind prefix_bind index0_prefix qdrant_prefix chat_prefix prefix_return)

lemma stream_runs_embedding:
  "prefix (snd (embed_texts w [query] tr)) (snd (stream_law_answer w query top_k tr))"
  unfolding stream_law_answer_def Let_def
  by (intro prefix_snd_bind prefix_bind index0_prefix qdrant_prefix prefix_return)

text \<open>With the URL and the collection set, the search is one request, carrying the limit.\<close>

lemma qdrant_request:
  assumes "QDRANT_URL (cfg w) \<noteq> []" and "strip (active_collection_name (cfg w)) \<noteq> []"
  shows "snd (qdrant_search_laws w v k (Some (active_collection_name (cfg w))) tr) =
           tr @ [QdrantPost
                   (rstrip_char 47 (QDRANT_URL (cfg w)) @ ascii ''/collections/'' @
                    strip (active_collection_name (cfg w)) @ ascii ''/points/search'')
                   (qdrant_headers (cfg w))
                   \<lparr>sb_vector = v, sb_limit = k, sb_with_payload = True,
                    sb_with_vector = False\<rparr>]"
proof -
  have r: "or_empty (py_or (Some (active_collection_name (cfg w)))
             (Some (active_collection_name (cfg w)))) = active_collection_name (cfg w)"
    by (simp add: py_or_def or_empty_def)
  show ?thesis
    using assms unfolding qdrant_search_laws_def Let_def r
    by (auto simp: io_bind_def io_call_def io_raise_def io_return_def
        split: prod.splits sum.splits)
qed

lemma search_sends_limit:
  assumes "embed_texts w [query] tr = (Inr (v # vs), tr1)"
      and "QDRANT_URL (cfg w) \<noteq> []" and "strip (active_collection_name (cfg w)) \<noteq> []"
  shows "prefix
           (tr1 @ [QdrantPost
                     (rstrip_char 47 (QDRANT_URL (cfg w)) @ ascii ''/collections/'' @
                      strip (active_collection_name (cfg w)) @ ascii ''/points/search'')
                     (qdrant_headers (cfg w))
                     \<lparr>sb_vector = v, sb_limit = top_k, sb_with_payload = True,
                      sb_with_vector = False\<rparr>])
           (snd (search_law_with_answer w query top_k tr))"
proof -
  let ?F = "\<lambda>points.
      io_bind (call_openai_chat w
                 (fst (build_prompts query (build_context_from_points points 900)))
                 (snd (build_prompts query (build_context_from_points points 900))))
        (\<lambda>answer. io_return (answer, points))"
  have s: "search_law_with_answer w query top_k tr =
      io_bind (qdrant_search_laws w v top_k (Some (active_collection_name (cfg w)))) ?F tr1"
    using assms(1)
    by (simp add: search_law_with_answer_def Let_def io_bind_apply index0_def io_return_def)
  have "prefix (snd (qdrant_search_laws w v top_k (Some (active_collection_name (cfg w))) tr1))
      (snd (io_bind (qdrant_search_laws w v top_k (Some (active_collection_name (cfg w)))) ?F tr1))"
    by (intro prefix_snd_bind prefix_bind chat_prefix prefix_return)
  then show ?thesis
    unfolding s qdrant_request[OF assms(2) assms(3)] .
qed

lemma stream_sends_limit:
  assumes "embed_texts w [query] tr = (Inr (v # vs), tr1)"
      and "QDRANT_URL (cfg w) \<noteq> []" and "strip (active_collection_name (cfg w)) \<noteq> []"
  shows "snd (stream_law_answer w query top_k tr) =
           tr1 @ [QdrantPost
                    (rstrip_char 47 (QDRANT_URL (cfg w)) @ ascii ''/collections/'' @
                     strip (active_collection_name (cfg w)) @ ascii ''/points/search'')
                    (qdrant_headers (cfg w))
                    \<lparr>sb_vector = v, sb_limit = top_k, sb_with_payload = True,
                     sb_with_vector = False\<rparr>]"
proof -
  have "snd (stream_law_answer w query top_k tr) =
      snd (qdrant_search_laws w v top_k (Some (active_collection_name (cfg w))) tr1)"
    using assms(1)
    by (auto simp: stream_law_answer_def Let_def io_bind_apply index0_def io_return_def
        split: prod.splits sum.splits)
  then show ?thesis
    unfolding qdrant_request[OF assms(2) assms(3)] .
qed

text \<open>
  C6, as the specification states it, asks that the entry operations reject a \<open>top_k\<close>
  of 0 before any call leaves the process. They do not look at \<open>top_k\<close>: called with
  \<open>top_k = 0\<close> on the concrete collaborators, \<open>search_law_with_answer\<close> returns an answer
  after three calls, the first of them the embedding request, and \<open>stream_law_answer\<close>
  returns its stream after two calls.
\<close>

theorem top_k_zero_not_rejected_counterexample:
  "fst (search_law_with_answer example_world (ascii ''hi'') 0 []) =
     Inr (ascii ''ok'', map (point_of_hit (ascii ''KLAC'')) example_hits) \<and>
   length (snd (search_law_with_answer example_world (ascii ''hi'') 0 [])) = 3 \<and>
   snd (search_law_with_answer example_world (ascii ''hi'') 0 []) ! 0 =
     EmbeddingsCreate (ascii ''text-embedding-3-small'') [ascii ''hi''] \<and>
   length (snd (stream_law_answer example_world (ascii ''hi'') 0 [])) = 2"
proof -
  have c: "clean_text (ascii ''hi'') = ascii ''hi''"
    by (simp add: clean_text_def str_defs)
  have s: "length (snd (stream_law_answer example_world (ascii ''hi'') 0 [])) = 2"
    by (simp add: stream_law_answer_def qdrant_search_laws_active Let_def io_bind_apply
        example_embed example_search index0_def io_return_def)
  from example_search_direct[of "ascii ''hi''" 0 "[]"]
    example_search_direct_trace[of "ascii ''hi''" 0 "[]"] c s
  show ?thesis by simp
qed

text \<open>
  C6, amended. The bound on \<open>top_k\<close> is a constraint of the request model: for every
  body whose \<open>top_k\<close> is 0 or negative, each of the four routes answers with a validation
  error and leaves the history of calls unchanged, so the entry operation is not called
  and no call leaves the process. The entry operations themselves do not check
  \<open>top_k\<close>: with such a \<open>top_k\<close>, for every question and whatever the collaborators, they
  carry out the whole embedding step on the question first, and when that step returns
  a vector and the URL and the collection name of the vector store are set, they send
  the store the search request with that \<open>top_k\<close>, unchanged, as its limit.
\<close>

theorem routes_reject_nonpositive_top_k:
  assumes "k \<le> 0"
  shows "(\<exists>field.
            LawChatRequest_validate \<lparr>body_question = q, body_top_k = Some k\<rparr> =
              Inl (ValidationError field) \<and>
            post_chat w \<lparr>body_question = q, body_top_k = Some k\<rparr> tr =
              (Inl (ValidationError field), tr) \<and>
            post_chat_stream w \<lparr>body_question = q, body_top_k = Some k\<rparr> tr =
              (Inl (ValidationError field), tr) \<and>
            post_chat_graph w \<lparr>body_question = q, body_top_k = Some k\<rparr> tr =
              (Inl (ValidationError field), tr) \<and>
            post_chat_graph_stream w \<lparr>body_question = q, body_top_k = Some k\<rparr> tr =
              (Inl (ValidationError field), tr)) \<and>
         prefix (snd (embed_texts w [query] tr)) (snd (search_law_with_answer w query k tr)) \<and>
         prefix (snd (embed_texts w [query] tr)) (snd (stream_law_answer w query k tr)) \<and>
         (\<forall>v vs tr1.
            embed_texts w [query] tr = (Inr (v # vs), tr1) \<longrightarrow>
            QDRANT_URL (cfg w) \<noteq> [] \<longrightarrow>
            strip (active_collection_name (cfg w)) \<noteq> [] \<longrightarrow>
            prefix
              (tr1 @ [QdrantPost
                        (rstrip_char 47 (QDRANT_URL (cfg w)) @ ascii ''/collections/'' @
                         strip (active_collection_name (cfg w)) @ ascii ''/points/search'')
                        (qdrant_headers (cfg w))
                        \<lparr>sb_vector = v, sb_limit = k, sb_with_payload = True,
                         sb_with_vector = False\<rparr>])
              (snd (search_law_with_answer w query k tr)) \<and>
            snd (stream_law_answer w query k tr) =
              tr1 @ [QdrantPost
                       (rstrip_char 47 (QDRANT_URL (cfg w)) @ ascii ''/collections/'' @
                        strip (active_collection_name (cfg w)) @ ascii ''/points/search'')
                       (qdrant_headers (cfg w))
                       \<lparr>sb_vector = v, sb_limit = k, sb_with_payload = True,
                        sb_with_vector = False\<rparr>])"
proof -
  let ?body = "\<lparr>body_question = q, body_top_k = Some k\<rparr>"
  let ?field = "case q of None \<Rightarrow> ''question''
                 | Some s \<Rightarrow> if s = [] then ''question'' else ''top_k''"
  from assms have v: "LawChatRequest_validate ?body = Inl (ValidationError ?field)"
    by (simp add: LawChatRequest_validate_def get_default_def Let_def split: option.splits)
  have "LawChatRequest_validate ?body = Inl (ValidationError ?field) \<and>
        post_chat w ?body tr = (Inl (ValidationError ?field), tr) \<and>
        post_chat_stream w ?body tr = (Inl (ValidationError ?field), tr) \<and>
        post_chat_graph w ?body tr = (Inl (ValidationError ?field), tr) \<and>
        post_chat_graph_stream w ?body tr = (Inl (ValidationError ?field), tr)"
    unfolding post_chat_def post_chat_stream_def post_chat_graph_def post_chat_graph_stream_def
    by (intro conjI v route_rejects[OF v])
  then have routes: "\<exists>field.
            LawChatRequest_validate ?body = Inl (ValidationError field) \<and>
            post_chat w ?body tr = (Inl (ValidationError field), tr) \<and>
            post_chat_stream w ?body tr = (Inl (ValidationError field), tr) \<and>
            post_chat_graph w ?body tr = (Inl (ValidationError field), tr) \<and>
            post_chat_graph_stream w ?body tr = (Inl (ValidationError field), tr)"
    by (rule exI)
  have limit: "\<forall>v vs tr1.
            embed_texts w [query] tr = (Inr (v # vs), tr1) \<longrightarrow>
            QDRANT_URL (cfg w) \<noteq> [] \<longrightarrow>
            strip (active_collection_name (cfg w)) \<noteq> [] \<longrightarrow>
            prefix
              (tr1 @ [QdrantPost
                        (rstrip_char 47 (QDRANT_URL (cfg w)) @ ascii ''/collections/'' @
                         strip (active_collection_name (cfg w)) @ ascii ''/points/search'')
                        (qdrant_headers (cfg w))
                        \<lparr>sb_vector = v, sb_limit = k, sb_with_payload = True,
                         sb_with_vector = False\<rparr>])
              (snd (search_law_with_answer w query k tr)) \<and>
            snd (stream_law_answer w query k tr) =
              tr1 @ [QdrantPost
                       (rstrip_char 47 (QDRANT_URL (cfg w)) @ ascii ''/collections/'' @
                        strip (active_collection_name (cfg w)) @ ascii ''/points/search'')
                       (qdrant_headers (cfg w))
                       \<lparr>sb_vector = v, sb_limit = k, sb_with_payload = True,
                        sb_with_vector = False\<rparr>]"
    by (intro allI impI conjI) (rule search_sends_limit stream_sends_limit; assumption)+
  show ?thesis
    by (rule conjI[OF routes conjI[OF search_runs_embedding
          conjI[OF stream_runs_embedding limit]]])
qed

text \<open>
  On the concrete collaborators, with \<open>top_k = 0\<close>: the routes answer with the
  validation error of \<open>top_k\<close> and no call, and \<open>search_law_with_answer\<close> called directly
  begins with the embedding request followed by the search request of limit 0.
\<close>

theorem routes_reject_nonpositive_top_k_witness:
  "(0::int) \<le> 0 \<and>
   post_chat example_world \<lparr>body_question = Some (ascii ''hi''), body_top_k = Some 0\<rparr> [] =
     (Inl (ValidationError ''top_k''), []) \<and>
   post_chat_stream example_world \<lparr>body_question = Some (ascii ''hi''), body_top_k = Some 0\<rparr> [] =
     (Inl (ValidationError ''top_k''), []) \<and>
   prefix
     [EmbeddingsCreate (ascii ''text-embedding-3-small'') [ascii ''hi''],
      QdrantPost (ascii ''http://qdrant:6333/collections/KLAC/points/search'')
        [(ascii ''Content-Type'', ascii ''application/json'')]
        \<lparr>sb_vector = [1], sb_limit = 0, sb_with_payload = True, sb_with_vector = False\<rparr>]
     (snd (search_law_with_answer example_world (ascii ''hi'') 0 []))"
proof -
  have h: "(0::int) \<le> 0" by simp
  have v: "LawChatRequest_validate \<lparr>body_question = Some (ascii ''hi''), body_top_k = Some 0\<rparr> =
      Inl (ValidationError ''top_k'')"
    by (simp add: LawChatRequest_validate_def get_default_def ascii_def)
  note t = routes_reject_nonpositive_top_k
    [OF h, of "Some (ascii ''hi'')" example_world "[]" "ascii ''hi''"]
  from t v have r: "post_chat example_world
        \<lparr>body_question = Some (ascii ''hi''), body_top_k = Some 0\<rparr> [] =
        (Inl (ValidationError ''top_k''), []) \<and>
      post_chat_stream example_world
        \<lparr>body_question = Some (ascii ''hi''), body_top_k = Some 0\<rparr> [] =
        (Inl (ValidationError ''top_k''), [])"
    by auto
  have c: "clean_text (ascii ''hi'') = ascii ''hi''"
    by (simp add: clean_text_def str_defs)
  have e: "embed_texts example_world [ascii ''hi''] [] =
      (Inr [[1]], [] @ [EmbeddingsCreate (ascii ''text-embedding-3-small'') [ascii ''hi'']])"
    using example_embed[of "ascii ''hi''" "[]"] by (simp only: c)
  have u: "QDRANT_URL (cfg example_world) \<noteq> []"
    "strip (active_collection_name (cfg example_world)) \<noteq> []"
    by (simp_all add: active_collection_name_def str_defs example_defs)
  have x: "rstrip_char 47 (QDRANT_URL (cfg example_world)) @ ascii ''/collections/'' @
      strip (active_collection_name (cfg example_world)) @ ascii ''/points/search'' =
      ascii ''http://qdrant:6333/collections/KLAC/points/search''"
    "qdrant_headers (cfg example_world) = [(ascii ''Content-Type'', ascii ''application/json'')]"
    by (simp_all add: active_collection_name_def qdrant_headers_def str_defs example_defs)
  from t e u have "prefix
     (([] @ [EmbeddingsCreate (ascii ''text-embedding-3-small'') [ascii ''hi'']]) @
      [QdrantPost
         (rstrip_char 47 (QDRANT_URL (cfg example_world)) @ ascii ''/collections/'' @
          strip (active_collection_name (cfg example_world)) @ ascii ''/points/search'')
         (qdrant_headers (cfg example_world))
         \<lparr>sb_vector = [1], sb_limit = 0, sb_with_payload = True, sb_with_vector = False\<rparr>])
     (snd (search_law_with_answer example_world (ascii ''hi'') 0 []))"
    by blast
  then have p: "prefix
     [EmbeddingsCreate (ascii ''text-embedding-3-small'') [ascii ''hi''],
      QdrantPost (ascii ''http://qdrant:6333/collections/KLAC/points/search'')
        [(ascii ''Content-Type'', ascii ''application/json'')]
        \<lparr>sb_vector = [1], sb_limit = 0, sb_with_payload = True, sb_with_vector = False\<rparr>]
     (snd (search_law_with_answer example_world (ascii ''hi'') 0 []))"
    unfolding x by simp
  from h r p show ?thesis by (intro conjI) simp_all
qed

text \<open>The embedding step on one text, by provider.\<close>

lemma embed_attempts_extends:
  "prefix tr (snd (embed_attempts w client model chunk retry attempts last_err tr))"
proof (induction attempts arbitrary: last_err tr)
  case Nil
  show ?case by (cases last_err) (simp_all add: io_return_def io_raise_def)
next
  case (Cons attempt rest)
  let ?ev = "EmbeddingsCreate model chunk"
  show ?case
  proof (cases "embeddings_create w tr client model chunk")
    case (Inr d)
    then show ?thesis by (simp add: io_catch_def io_call_def)
  next
    case (Inl e)
    have "prefix (tr @ [?ev])
        (snd (io_bind (if attempt < retry then io_call (Sleep attempt) (\<lambda>tr. Inr ())
                       else io_return ())
                (\<lambda>_. embed_attempts w client model chunk retry rest (Some e)) (tr @ [?ev])))"
      by (intro prefix_bind Cons.IH) (simp add: io_call_def io_return_def)
    then have "prefix tr
        (snd (io_bind (if attempt < retry then io_call (Sleep attempt) (\<lambda>tr. Inr ())
                       else io_return ())
                (\<lambda>_. embed_attempts w client model chunk retry rest (Some e)) (tr @ [?ev])))"
      by (rule append_prefixD)
    with Inl show ?thesis by (simp add: io_catch_def io_call_def)
  qed
qed

lemma embed_attempts_first:
  "prefix (tr @ [EmbeddingsCreate model chunk])
     (snd (embed_attempts w client model chunk retry (attempt # rest) last_err tr))"
proof (cases "embeddings_create w tr client model chunk")
  case (Inr d)
  then show ?thesis by (simp add: io_catch_def io_call_def)
next
  case (Inl e)
  have "prefix (tr @ [EmbeddingsCreate model chunk])
      (snd (io_bind (if attempt < retry then io_call (Sleep attempt) (\<lambda>tr. Inr ())
                     else io_return ())
              (\<lambda>_. embed_attempts w client model chunk retry rest (Some e))
              (tr @ [EmbeddingsCreate model chunk])))"
    by (intro prefix_bind embed_attempts_extends) (simp add: io_call_def io_return_def)
  with Inl show ?thesis by (simp add: io_catch_def io_call_def)
qed

lemma embed_openai_first:
  assumes "embed_provider w \<noteq> ascii ''kure''" and "get_oai_client w tr = (Inr client, tr)"
  shows "prefix (tr @ [EmbeddingsCreate (oai_embed_model w) [clean_text q]])
           (snd (embed_texts w [q] tr))"
proof -
  let ?A = "embed_attempts w client (oai_embed_model w) [clean_text q] 3 [Suc 0, 2, 3] None"
  have e: "embed_texts w [q] tr = io_bind ?A (\<lambda>data. io_return data) tr"
    using assms
    by (simp add: embed_texts_def embed_texts_openai_def Let_def io_bind_apply batches_single
        upt_1_4 del: embed_attempts.simps)
  have "prefix (snd (?A tr)) (snd (io_bind ?A (\<lambda>data. io_return data) tr))"
    by (intro prefix_snd_bind prefix_return)
  with embed_attempts_first[of tr "oai_embed_model w" "[clean_text q]" w client 3 "Suc 0" "[2, 3]" None]
  show ?thesis
    unfolding e by (rule prefix_order.trans)
qed

lemma embed_kure_one:
  assumes "embed_provider w = ascii ''kure''"
  shows "embed_texts w [q] tr =
           (kure_encode w tr (getenv_default w ''KURE_MODEL_NAME'' (ascii ''nlpai-lab/KURE-v1'')) [q],
            tr @ [KureEncode (getenv_default w ''KURE_MODEL_NAME'' (ascii ''nlpai-lab/KURE-v1'')) [q]])"
  using assms by (simp add: embed_texts_def embed_texts_kure_def Let_def io_call_def)

lemma clean_text_empty: "clean_text [] = [32]"
  by (simp add: clean_text_def str_defs)

text \<open>
  C7, as the specification states it, asks that the entry operations reject the empty
  question before any call leaves the process. They do not: called with the empty
  question on the concrete collaborators, \<open>search_law_with_answer\<close> returns an answer after
  three calls, the first of them the embedding request, whose text is the single space
  the OpenAI embedding adapter puts in place of an empty text.
\<close>

theorem empty_question_not_rejected_counterexample:
  "fst (search_law_with_answer example_world [] 3 []) =
     Inr (ascii ''ok'', map (point_of_hit (ascii ''KLAC'')) example_hits) \<and>
   length (snd (search_law_with_answer example_world [] 3 [])) = 3 \<and>
   snd (search_law_with_answer example_world [] 3 []) ! 0 =
     EmbeddingsCreate (ascii ''text-embedding-3-small'') [ascii '' ''] \<and>
   length (snd (stream_law_answer example_world [] 3 [])) = 2"
proof -
  have c: "clean_text [] = ascii '' ''"
    by (simp add: clean_text_def str_defs)
  have s: "length (snd (stream_law_answer example_world [] 3 [])) = 2"
    by (simp add: stream_law_answer_def qdrant_search_laws_active Let_def io_bind_apply
        example_embed example_search index0_def io_return_def)
  from example_search_direct[of "[]" 3 "[]"] example_search_direct_trace[of "[]" 3 "[]"] c s
  show ?thesis by simp
qed

text \<open>
  C7, amended. The non-empty question is a constraint of the request model: for every
  body whose question is the empty string, whatever its \<open>top_k\<close>, each of the four routes
  answers with the validation error of the question and leaves the history of calls
  unchanged, so the entry operation is not called and no call leaves the process. The
  entry operations themselves do not check the question: called with the empty string,
  for every \<open>top_k\<close> and whatever the collaborators, they carry out the whole embedding
  step on it first. In that step the KURE adapter encodes the empty text as it is; the
  OpenAI adapter, when its key is set, requests the embedding of a single space in its
  place.
\<close>

theorem routes_reject_empty_question:
  "post_chat w \<lparr>body_question = Some [], body_top_k = k\<rparr> tr =
     (Inl (ValidationError ''question''), tr) \<and>
   post_chat_stream w \<lparr>body_question = Some [], body_top_k = k\<rparr> tr =
     (Inl (ValidationError ''question''), tr) \<and>
   post_chat_graph w \<lparr>body_question = Some [], body_top_k = k\<rparr> tr =
     (Inl (ValidationError ''question''), tr) \<and>
   post_chat_graph_stream w \<lparr>body_question = Some [], body_top_k = k\<rparr> tr =
     (Inl (ValidationError ''question''), tr) \<and>
   prefix (snd (embed_texts w [[]] tr)) (snd (search_law_with_answer w [] top_k tr)) \<and>
   prefix (snd (embed_texts w [[]] tr)) (snd (stream_law_answer w [] top_k tr)) \<and>
   (embed_provider w = ascii ''kure'' \<longrightarrow>
      embed_texts w [[]] tr =
        (kure_encode w tr (getenv_default w ''KURE_MODEL_NAME'' (ascii ''nlpai-lab/KURE-v1'')) [[]],
         tr @ [KureEncode (getenv_default w ''KURE_MODEL_NAME'' (ascii ''nlpai-lab/KURE-v1''))
                 [[]]])) \<and>
   (embed_provider w \<noteq> ascii ''kure'' \<longrightarrow>
      (\<forall>client. get_oai_client w tr = (Inr client, tr) \<longrightarrow>
         prefix (tr @ [EmbeddingsCreate (oai_embed_model w) [ascii '' '']])
           (snd (embed_texts w [[]] tr))))"
proof -
  have v: "LawChatRequest_validate \<lparr>body_question = Some [], body_top_k = k\<rparr> =
      Inl (ValidationError ''question'')"
    by (simp add: LawChatRequest_validate_def)
  have r1: "post_chat w \<lparr>body_question = Some [], body_top_k = k\<rparr> tr =
      (Inl (ValidationError ''question''), tr)"
    unfolding post_chat_def by (rule route_rejects[OF v])
  have r2: "post_chat_stream w \<lparr>body_question = Some [], body_top_k = k\<rparr> tr =
      (Inl (ValidationError ''question''), tr)"
    unfolding post_chat_stream_def by (rule route_rejects[OF v])
  have r3: "post_chat_graph w \<lparr>body_question = Some [], body_top_k = k\<rparr> tr =
      (Inl (ValidationError ''question''), tr)"
    unfolding post_chat_graph_def by (rule route_rejects[OF v])
  have r4: "post_chat_graph_stream w \<lparr>body_question = Some [], body_top_k = k\<rparr> tr =
      (Inl (ValidationError ''question''), tr)"
    unfolding post_chat_graph_stream_def by (rule route_rejects[OF v])
  have kure: "embed_provider w = ascii ''kure'' \<longrightarrow>
      embed_texts w [[]] tr =
        (kure_encode w tr (getenv_default w ''KURE_MODEL_NAME'' (ascii ''nlpai-lab/KURE-v1'')) [[]],
         tr @ [KureEncode (getenv_default w ''KURE_MODEL_NAME'' (ascii ''nlpai-lab/KURE-v1''))
                 [[]]])"
    by (intro impI) (rule embed_kure_one)
  have s32: "ascii '' '' = [32]" by (simp add: ascii_def)
  have oai: "embed_provider w \<noteq> ascii ''kure'' \<longrightarrow>
      (\<forall>client. get_oai_client w tr = (Inr client, tr) \<longrightarrow>
         prefix (tr @ [EmbeddingsCreate (oai_embed_model w) [ascii '' '']])
           (snd (embed_texts w [[]] tr)))"
    unfolding s32 using embed_openai_first[of w tr _ "[]"]
    by (simp add: clean_text_empty)
  show ?thesis
    by (rule conjI[OF r1 conjI[OF r2 conjI[OF r3 conjI[OF r4 conjI[OF search_runs_embedding
          conjI[OF stream_runs_embedding conjI[OF kure oai]]]]]]])
qed

text \<open>
  On the concrete collaborators the routes answer with the validation error and no call,
  and \<open>search_law_with_answer\<close> called directly with the empty question begins with the
  request for the embedding of a single space; with the KURE provider selected the
  embedding step encodes the empty text itself.
\<close>

theorem routes_reject_empty_question_witness:
  "post_chat example_world \<lparr>body_question = Some [], body_top_k = Some 3\<rparr> [] =
     (Inl (ValidationError ''question''), []) \<and>
   post_chat_stream example_world \<lparr>body_question = Some [], body_top_k = None\<rparr> [] =
     (Inl (ValidationError ''question''), []) \<and>
   prefix [EmbeddingsCreate (ascii ''text-embedding-3-small'') [ascii '' '']]
     (snd (search_law_with_answer example_world [] 3 [])) \<and>
   embed_texts kure_world [[]] [] =
     (Inr [[1]], [KureEncode (ascii ''nlpai-lab/KURE-v1'') [[]]])"
proof -
  note t1 = routes_reject_empty_question[of example_world "Some 3" "[]" 3]
  note t2 = routes_reject_empty_question[of example_world None "[]" 3]
  note t3 = routes_reject_empty_question[of kure_world None "[]" 3]
  have a: "post_chat example_world \<lparr>body_question = Some [], body_top_k = Some 3\<rparr> [] =
      (Inl (ValidationError ''question''), [])"
    using t1 by (elim conjE)
  have b: "post_chat_stream example_world \<lparr>body_question = Some [], body_top_k = None\<rparr> [] =
      (Inl (ValidationError ''question''), [])"
    using t2 by (elim conjE)
  have p: "embed_provider example_world \<noteq> ascii ''kure''"
    by (simp add: embed_provider_def getenv_default_def str_defs example_defs)
  have c: "get_oai_client example_world [] =
      (Inr \<lparr>cl_api_key = ascii ''sk'', cl_base_url = None\<rparr>, [])"
    by (simp add: get_oai_client_def io_defs str_defs example_defs)
  have m: "oai_embed_model example_world = ascii ''text-embedding-3-small''"
    by (simp add: oai_embed_model_def getenv_default_def str_defs example_defs)
  from t1 p c have "prefix ([] @ [EmbeddingsCreate (oai_embed_model example_world) [ascii '' '']])
      (snd (embed_texts example_world [[]] []))"
    by blast
  moreover from t1 have "prefix (snd (embed_texts example_world [[]] []))
      (snd (search_law_with_answer example_world [] 3 []))"
    by (elim conjE)
  ultimately have "prefix ([] @ [EmbeddingsCreate (oai_embed_model example_world) [ascii '' '']])
      (snd (search_law_with_answer example_world [] 3 []))"
    by (rule prefix_order.trans)
  then have d: "prefix [EmbeddingsCreate (ascii ''text-embedding-3-small'') [ascii '' '']]
      (snd (search_law_with_answer example_world [] 3 []))"
    unfolding m by simp
  have k: "embed_provider kure_world = ascii ''kure''"
    by (simp add: embed_provider_def getenv_default_def kure_world_def str_defs)
  have n: "getenv_default kure_world ''KURE_MODEL_NAME'' (ascii ''nlpai-lab/KURE-v1'') =
      ascii ''nlpai-lab/KURE-v1''"
    "kure_encode kure_world [] (ascii ''nlpai-lab/KURE-v1'') [[]] = Inr [[1]]"
    by (simp_all add: getenv_default_def kure_world_def example_world_def)
  from t3 k have "embed_texts kure_world [[]] [] =
      (kure_encode kure_world []
         (getenv_default kure_world ''KURE_MODEL_NAME'' (ascii ''nlpai-lab/KURE-v1'')) [[]],
       [] @ [KureEncode (getenv_default kure_world ''KURE_MODEL_NAME''
                           (ascii ''nlpai-lab/KURE-v1'')) [[]]])"
    by blast
  then have e: "embed_texts kure_world [[]] [] =
      (Inr [[1]], [KureEncode (ascii ''nlpai-lab/KURE-v1'') [[]]])"
    unfolding n by simp
  from a b d e show ?thesis by (intro conjI)
qed

end
